theory Spec2Isabelle
  imports Main "HOL-Library.Char_ord"
begin

section \<open>Notification subsystem of PRISM (src/notifications)\<close>

text \<open>
  Shallow embedding of the notification models (models.py), the post-save signal
  receivers (signals.py), the Celery tasks (tasks.py) and the template form validation
  (forms.py).

  Conventions of the embedding:
  \<^item> a \<open>datetime\<close> is the number of microseconds since the epoch, a time of day the number
    of microseconds since midnight; \<open>timezone.now()\<close> is the parameter \<open>now\<close> of every
    operation that reads the clock;
  \<^item> a JSON object used as a dictionary is a map from strings; the type-allow maps hold
    the truth value of each entry;
  \<^item> an operation that can raise returns a sum, \<open>Inl\<close> the exception, together with the
    database as the operation left it;
  \<^item> strings are byte strings, and \<open>\w\<close> is the ASCII class \<open>[A-Za-z0-9_]\<close>.
\<close>

subsection \<open>Time\<close>

type_synonym datetime = int
type_synonym time_of_day = int

definition usec_per_day :: int where
  "usec_per_day = 86400000000"

definition usec_per_hour :: int where
  "usec_per_hour = 3600000000"

text \<open>\<open>datetime.time()\<close>: the time of day of a point in time.\<close>

definition time_of :: "datetime \<Rightarrow> time_of_day" where
  "time_of t = t mod usec_per_day"

text \<open>\<open>timezone.timedelta(days=n)\<close>.\<close>

definition days :: "int \<Rightarrow> int" where
  "days n = n * usec_per_day"

subsection \<open>NotificationPreference (models.py)\<close>

record preference =
  email_notifications :: bool
  email_frequency :: string
  push_notifications :: bool
  in_app_notifications :: bool
  email_types :: "string \<rightharpoonup> bool"
  push_types :: "string \<rightharpoonup> bool"
  in_app_types :: "string \<rightharpoonup> bool"
  quiet_hours_enabled :: bool
  quiet_start :: "time_of_day option"
  quiet_end :: "time_of_day option"
  do_not_disturb :: bool
  do_not_disturb_until :: "datetime option"

text \<open>
  \<open>get_channel_type\<close> takes no argument and returns the constant \<open>'in_app'\<close>;
  \<open>getattr(self, f'{self.get_channel_type()}_types', {})\<close> selects the map by that name.
\<close>

definition get_channel_type :: "preference \<Rightarrow> string" where
  "get_channel_type p = ''in_app''"

definition types_attr :: "preference \<Rightarrow> string \<Rightarrow> (string \<rightharpoonup> bool)" where
  "types_attr p ch =
     (if ch = ''email'' then email_types p
      else if ch = ''push'' then push_types p
      else if ch = ''in_app'' then in_app_types p
      else Map.empty)"

text \<open>
  \<open>should_send_notification(self, notification_type, notification_time=None)\<close>.
  A missing time is replaced by \<open>timezone.now()\<close>. The do-not-disturb test needs the
  flag, an end that is set and a time before that end; the quiet-hours test needs the
  flag and both ends, and distinguishes a window within one day from one that spans
  midnight; the last step reads the map that \<open>get_channel_type\<close> names.
\<close>

definition should_send_notification ::
  "datetime \<Rightarrow> preference \<Rightarrow> string \<Rightarrow> datetime option \<Rightarrow> bool" where
  "should_send_notification now p notification_type notification_time =
     (let t = (case notification_time of None \<Rightarrow> now | Some t' \<Rightarrow> t') in
      if do_not_disturb p \<and>
         (case do_not_disturb_until p of None \<Rightarrow> False | Some u \<Rightarrow> t < u)
      then False
      else if quiet_hours_enabled p \<and>
         (case (quiet_start p, quiet_end p) of
            (Some qs, Some qe) \<Rightarrow>
              (let current_time = time_of t in
               if qs \<le> qe then qs \<le> current_time \<and> current_time \<le> qe
               else current_time \<ge> qs \<or> current_time \<le> qe)
          | _ \<Rightarrow> False)
      then False
      else (case types_attr p (get_channel_type p) notification_type of
              Some b \<Rightarrow> b
            | None \<Rightarrow> True))"

text \<open>The record that \<open>create_default_notification_preferences\<close> stores for a new user.\<close>

definition all_true :: "string list \<Rightarrow> (string \<rightharpoonup> bool)" where
  "all_true ks = map_of (map (\<lambda>k. (k, True)) ks)"

definition default_preference :: preference where
  "default_preference =
     \<lparr> email_notifications = True, email_frequency = ''immediate'',
       push_notifications = True, in_app_notifications = True,
       email_types = all_true [''info'', ''success'', ''warning'', ''error'',
                               ''application'', ''message''],
       push_types = all_true [''info'', ''success'', ''warning'', ''error'',
                              ''application'', ''message''],
       in_app_types = all_true [''info'', ''success'', ''warning'', ''error'',
                                ''application'', ''message'', ''deadline'', ''system'',
                                ''collaboration'', ''metrics''],
       quiet_hours_enabled = False, quiet_start = None, quiet_end = None,
       do_not_disturb = False, do_not_disturb_until = None \<rparr>"

subsection \<open>Exceptions and task results\<close>

datatype py_error =
    KeyError string
  | ValueError
  | IndexError
  | AttributeError
  | TypeError
  | NameError string
  | DoesNotExist
  | MultipleObjectsReturned
  | TransportError string
  | ValidationError "string set"

text \<open>
  A task returns a dictionary: \<open>{'success': True, ...}\<close> is \<open>Inr\<close> of the payload,
  \<open>{'success': False, 'reason': r}\<close> is \<open>Inl\<close>, with \<open>r\<close> a fixed text or the text of
  a caught exception.
\<close>

datatype failure = Reason string | Raised py_error

subsection \<open>Rows of the database\<close>

text \<open>
  A user of \<open>django.contrib.auth\<close>, with the two attributes the notification code reads
  from it: the device token (\<open>None\<close> when the attribute is missing or empty) and the
  one-to-one preference record (\<open>None\<close> when the reverse accessor raises
  \<open>RelatedObjectDoesNotExist\<close>).
\<close>

record user =
  username :: string
  full_name :: string
  email :: string
  push_notification_token :: "string option"
  notificationpreference :: "preference option"

text \<open>
  The fields of \<open>Notification\<close> that the operations below read or write. The class
  declares no field \<open>scheduled_time\<close>.
\<close>

record notification =
  nid :: nat
  owner :: nat
  title :: string
  message :: string
  notification_type :: string
  is_read :: bool
  is_priority :: bool
  is_archived :: bool
  created_at :: datetime
  read_at :: "datetime option"
  expires_at :: "datetime option"
  source :: string
  target_url :: string
  action_required :: bool

datatype channel = Email | Push | InApp

datatype status = Created | Sent | Delivered | Read | Clicked | Dismissed | Failed

record history =
  h_notification :: nat
  h_user :: nat
  h_channel :: channel
  h_status :: status
  h_created_at :: datetime
  delivered_at :: "datetime option"
  h_read_at :: "datetime option"
  clicked_at :: "datetime option"
  dismissed_at :: "datetime option"
  h_error :: "py_error option"

text \<open>The tasks handed to the queue with \<open>.delay(notification_id, user_id)\<close>.\<close>

datatype task =
    SendRealtime nat nat
  | SendEmail nat nat
  | SendPush nat nat

datatype log_entry = LogInfo string | LogWarning string | LogError py_error

text \<open>
  The shared state: the tables, the next automatic notification id, the task queue, the
  messages published to the per-user live group (user id, notification id), the mails
  handed to the mail transport (address, subject) and the log.
\<close>

record db =
  users :: "nat \<rightharpoonup> user"
  notifications :: "notification list"
  histories :: "history list"
  next_id :: nat
  queue :: "task list"
  published :: "(nat \<times> nat) list"
  outbox :: "(string \<times> string) list"
  log :: "log_entry list"

subsection \<open>NotificationHistory (models.py)\<close>

text \<open>\<open>NotificationHistory.objects.create(notification, user, channel, status[, metadata])\<close>.\<close>

definition new_history ::
  "datetime \<Rightarrow> nat \<Rightarrow> nat \<Rightarrow> channel \<Rightarrow> status \<Rightarrow> py_error option \<Rightarrow> history" where
  "new_history now n u ch st err =
     \<lparr> h_notification = n, h_user = u, h_channel = ch, h_status = st,
       h_created_at = now, delivered_at = None, h_read_at = None, clicked_at = None,
       dismissed_at = None, h_error = err \<rparr>"

definition mark_delivered :: "datetime \<Rightarrow> history \<Rightarrow> history" where
  "mark_delivered now h =
     (if h_status h \<noteq> Delivered
      then h\<lparr>h_status := Delivered, delivered_at := Some now\<rparr> else h)"

definition mark_read :: "datetime \<Rightarrow> history \<Rightarrow> history" where
  "mark_read now h =
     (if h_status h \<noteq> Read
      then h\<lparr>h_status := Read, h_read_at := Some now\<rparr> else h)"

definition mark_clicked :: "datetime \<Rightarrow> history \<Rightarrow> history" where
  "mark_clicked now h =
     (if h_status h \<noteq> Clicked
      then h\<lparr>h_status := Clicked, clicked_at := Some now\<rparr> else h)"

definition mark_dismissed :: "datetime \<Rightarrow> history \<Rightarrow> history" where
  "mark_dismissed now h =
     (if h_status h \<noteq> Dismissed
      then h\<lparr>h_status := Dismissed, dismissed_at := Some now\<rparr> else h)"

text \<open>
  The position of a status on the path
  created, sent, delivered, read, clicked or dismissed; \<open>failed\<close> is off the path.
\<close>

fun stage :: "status \<Rightarrow> nat option" where
  "stage Created = Some 0"
| "stage Sent = Some 1"
| "stage Delivered = Some 2"
| "stage Read = Some 3"
| "stage Clicked = Some 4"
| "stage Dismissed = Some 4"
| "stage Failed = None"

subsection \<open>Queries\<close>

text \<open>
  \<open>Model.objects.get(...)\<close> on a table: the position of the only row that matches,
  \<open>DoesNotExist\<close> when none does, \<open>MultipleObjectsReturned\<close> when several do.
\<close>

definition objects_get :: "('a \<Rightarrow> bool) \<Rightarrow> 'a list \<Rightarrow> py_error + nat" where
  "objects_get P rows =
     (case filter (\<lambda>i. P (rows ! i)) [0 ..< length rows] of
        [] \<Rightarrow> Inl DoesNotExist
      | [i] \<Rightarrow> Inr i
      | _ \<Rightarrow> Inl MultipleObjectsReturned)"

text \<open>\<open>Notification.objects.get(id=notification_id)\<close>; ids are unique.\<close>

definition get_notification :: "db \<Rightarrow> nat \<Rightarrow> notification option" where
  "get_notification d i = find (\<lambda>n. nid n = i) (notifications d)"

text \<open>
  The token test \<open>hasattr(user, 'push_notification_token') and user.push_notification_token\<close>
  (and \<open>getattr(user, 'push_notification_token', None)\<close> followed by \<open>if not push_token\<close>):
  the attribute exists and is not empty.
\<close>

definition has_push_token :: "user \<Rightarrow> bool" where
  "has_push_token u =
     (case push_notification_token u of None \<Rightarrow> False | Some tok \<Rightarrow> tok \<noteq> [])"

subsection \<open>Handing work to the queue\<close>

text \<open>\<open>task.delay(...)\<close> on a function decorated with \<open>shared_task\<close> (tasks.py).\<close>

definition delay_task :: "task \<Rightarrow> db \<Rightarrow> db" where
  "delay_task t d = d\<lparr>queue := queue d @ [t]\<rparr>"

text \<open>
  \<open>send_notification_email_task\<close> and \<open>send_notification_push_task\<close> of signals.py are
  plain functions, not tasks: a function object has no attribute \<open>delay\<close>, so
  \<open>f.delay(...)\<close> raises \<open>AttributeError\<close> and nothing is queued.
\<close>

definition delay_function :: "task \<Rightarrow> db \<Rightarrow> py_error option \<times> db" where
  "delay_function t d = (Some AttributeError, d)"

subsection \<open>Signal receivers (signals.py)\<close>

definition add_history :: "history \<Rightarrow> db \<Rightarrow> db" where
  "add_history h d = d\<lparr>histories := histories d @ [h]\<rparr>"

definition add_log :: "log_entry \<Rightarrow> db \<Rightarrow> db" where
  "add_log e d = d\<lparr>log := log d @ [e]\<rparr>"

definition create_notification_history ::
  "datetime \<Rightarrow> notification \<Rightarrow> bool \<Rightarrow> db \<Rightarrow> db" where
  "create_notification_history now instance created d =
     (if created
      then add_history (new_history now (nid instance) (owner instance) InApp Created None) d
      else d)"

text \<open>
  The in-app block of \<open>send_notification_via_channels\<close>: publish to the live group of
  the user, then move the history row in state \<open>created\<close> to \<open>delivered\<close>, or create a
  delivered row when there is none. The result is the exception that leaves the block,
  if any, and the database at that point.
\<close>

definition in_app_block ::
  "datetime \<Rightarrow> notification \<Rightarrow> db \<Rightarrow> py_error option \<times> db" where
  "in_app_block now instance d =
     (let d1 = d\<lparr>published := published d @ [(owner instance, nid instance)]\<rparr> in
      case objects_get (\<lambda>h. h_notification h = nid instance \<and> h_user h = owner instance
                             \<and> h_status h = Created) (histories d1) of
        Inr i \<Rightarrow>
          (None,
           d1\<lparr>histories := (histories d1)[i := mark_delivered now (histories d1 ! i)]\<rparr>)
      | Inl DoesNotExist \<Rightarrow>
          (None,
           add_history
             (new_history now (nid instance) (owner instance) InApp Delivered None) d1)
      | Inl e \<Rightarrow> (Some e, d1))"

text \<open>
  \<open>send_notification_via_channels(sender, instance, created)\<close>; \<open>u\<close> is \<open>instance.user\<close>.
  Every exception raised inside is caught and logged; what was written before it stays,
  and the channels after it are not reached.
\<close>

definition send_notification_via_channels ::
  "datetime \<Rightarrow> user \<Rightarrow> notification \<Rightarrow> bool \<Rightarrow> db \<Rightarrow> db" where
  "send_notification_via_channels now u instance created d =
     (if \<not> created then d
      else case notificationpreference u of
        None \<Rightarrow> add_log (LogWarning ''No notification preferences found'') d
      | Some preference \<Rightarrow>
          if \<not> should_send_notification now preference (notification_type instance) None
          then add_log (LogInfo ''Skipping notification - type disabled'') d
          else
            (case (if in_app_notifications preference
                   then in_app_block now instance d else (None, d)) of
               (Some e, d1) \<Rightarrow> add_log (LogError e) d1
             | (None, d1) \<Rightarrow>
                (case (if email_notifications preference
                          \<and> email_frequency preference = ''immediate''
                       then delay_function (SendEmail (nid instance) (owner instance)) d1
                       else (None, d1)) of
                   (Some e, d2) \<Rightarrow> add_log (LogError e) d2
                 | (None, d2) \<Rightarrow>
                    (case (if push_notifications preference \<and> has_push_token u
                           then delay_function (SendPush (nid instance) (owner instance)) d2
                           else (None, d2)) of
                       (Some e, d3) \<Rightarrow> add_log (LogError e) d3
                     | (None, d3) \<Rightarrow> add_log (LogInfo ''Notification sent'') d3))))"

text \<open>
  Reading \<open>instance.scheduled_time\<close>: \<open>Notification\<close> has no attribute of that name and
  no code sets one, so the read raises \<open>AttributeError\<close>.
\<close>

definition scheduled_time_attr :: "notification \<Rightarrow> py_error + datetime option" where
  "scheduled_time_attr instance = Inl AttributeError"

text \<open>
  \<open>handle_scheduled_notifications\<close>. The first test is
  \<open>not created or not instance.scheduled_time\<close>: for a row that was not just created
  the receiver returns; otherwise the attribute is read. Behind the read the receiver
  returns for a missing or future time and queues the three tasks of tasks.py for a
  time that has passed, the email and push ones under the channel switches. Only
  \<open>NotificationPreference.DoesNotExist\<close> is caught inside; any other exception leaves
  the receiver. The result is that exception, if any, and the database.
\<close>

definition handle_scheduled_notifications ::
  "datetime \<Rightarrow> user \<Rightarrow> notification \<Rightarrow> bool \<Rightarrow> db \<Rightarrow> py_error option \<times> db" where
  "handle_scheduled_notifications now u instance created d =
     (if \<not> created then (None, d)
      else case scheduled_time_attr instance of
        Inl e \<Rightarrow> (Some e, d)
      | Inr None \<Rightarrow> (None, d)
      | Inr (Some st) \<Rightarrow>
          if st > now then (None, add_log (LogInfo ''Scheduled notification'') d)
          else
            (let d1 = delay_task (SendRealtime (nid instance) (owner instance)) d;
                 d2 = (case notificationpreference u of
                         None \<Rightarrow> d1
                       | Some preference \<Rightarrow>
                          (let e1 = (if email_notifications preference
                                     then delay_task
                                            (SendEmail (nid instance) (owner instance)) d1
                                     else d1)
                           in if push_notifications preference
                                 \<and> push_notification_token u \<noteq> None
                              then delay_task (SendPush (nid instance) (owner instance)) e1
                              else e1))
             in (None, add_log (LogInfo ''Sent scheduled notification'') d2)))"

text \<open>
  \<open>Notification.objects.create(user=u, ...)\<close>: the row gets the next id and the creation
  time and is stored; then the three receivers of \<open>post_save\<close> run in the order of their
  registration. The receiver of \<open>pre_save\<close> finds no earlier row and does nothing.
  \<open>post_save\<close> is sent after the row is written and does not catch what a receiver
  raises: an exception from a receiver leaves \<open>create\<close>, with the row stored and the
  earlier receivers done. The result is the stored row or that exception.
\<close>

definition objects_create ::
  "datetime \<Rightarrow> user \<Rightarrow> notification \<Rightarrow> db \<Rightarrow> (py_error + notification) \<times> db" where
  "objects_create now u row d =
     (let instance = row\<lparr>nid := next_id d, created_at := now\<rparr>;
          d0 = d\<lparr>notifications := notifications d @ [instance], next_id := Suc (next_id d)\<rparr>;
          d1 = create_notification_history now instance True d0;
          d2 = send_notification_via_channels now u instance True d1
      in case handle_scheduled_notifications now u instance True d2 of
           (Some e, d3) \<Rightarrow> (Inl e, d3)
         | (None, d3) \<Rightarrow> (Inr instance, d3))"

subsection \<open>Channel tasks (tasks.py)\<close>

text \<open>
  \<open>send_notification_email(notification_id, user_id)\<close>. The parameter \<open>transport\<close> is
  the mail transport: for an address, the error that \<open>send_mail\<close> raises, if any.
\<close>

definition send_notification_email ::
  "datetime \<Rightarrow> (string \<Rightarrow> string option) \<Rightarrow> nat \<Rightarrow> nat \<Rightarrow> db \<Rightarrow> (failure + unit) \<times> db" where
  "send_notification_email now transport notification_id user_id d =
     (case get_notification d notification_id of
        None \<Rightarrow> (Inl (Reason ''Notification not found''), d)
      | Some n \<Rightarrow>
         (case users d user_id of
            None \<Rightarrow> (Inl (Reason ''User not found''), d)
          | Some u \<Rightarrow>
             (case notificationpreference u of
                None \<Rightarrow> (Inl (Reason ''User preferences not found''), d)
              | Some preference \<Rightarrow>
                 if \<not> (email_notifications preference
                        \<and> should_send_notification now preference (notification_type n) None)
                 then (Inl (Reason ''Email notifications disabled for this type''), d)
                 else
                   (case transport (email u) of
                      None \<Rightarrow>
                        (Inr (),
                         add_history (new_history now (nid n) user_id Email Sent None)
                           (d\<lparr>outbox := outbox d @ [(email u, title n)]\<rparr>))
                    | Some err \<Rightarrow>
                        (Inl (Raised (TransportError err)),
                         add_history
                           (new_history now (nid n) user_id Email Failed
                              (Some (TransportError err))) d)))))"

definition send_notification_push ::
  "datetime \<Rightarrow> nat \<Rightarrow> nat \<Rightarrow> db \<Rightarrow> (failure + unit) \<times> db" where
  "send_notification_push now notification_id user_id d =
     (case get_notification d notification_id of
        None \<Rightarrow> (Inl (Reason ''Notification not found''), d)
      | Some n \<Rightarrow>
         (case users d user_id of
            None \<Rightarrow> (Inl (Reason ''User not found''), d)
          | Some u \<Rightarrow>
             (case notificationpreference u of
                None \<Rightarrow> (Inl (Reason ''User preferences not found''), d)
              | Some preference \<Rightarrow>
                 if \<not> (push_notifications preference
                        \<and> should_send_notification now preference (notification_type n) None)
                 then (Inl (Reason ''Push notifications disabled for this type''), d)
                 else if \<not> has_push_token u
                 then (Inl (Reason ''No push token found''), d)
                 else
                   (Inr (),
                    add_history (new_history now (nid n) user_id Push Sent None) d))))"

definition send_realtime_notification ::
  "datetime \<Rightarrow> nat \<Rightarrow> nat \<Rightarrow> db \<Rightarrow> (failure + unit) \<times> db" where
  "send_realtime_notification now notification_id user_id d =
     (case get_notification d notification_id of
        None \<Rightarrow> (Inl (Reason ''Notification not found''), d)
      | Some n \<Rightarrow>
         (case users d user_id of
            None \<Rightarrow> (Inl (Reason ''User not found''), d)
          | Some u \<Rightarrow>
             (case notificationpreference u of
                None \<Rightarrow> (Inl (Reason ''User preferences not found''), d)
              | Some preference \<Rightarrow>
                 if \<not> (in_app_notifications preference
                        \<and> should_send_notification now preference (notification_type n) None)
                 then (Inl (Reason ''In-app notifications disabled for this type''), d)
                 else
                   (Inr (),
                    add_history (new_history now (nid n) user_id InApp Delivered None)
                      (d\<lparr>published := published d @ [(user_id, nid n)]\<rparr>)))))"

text \<open>Running a queued task.\<close>

fun run_task ::
  "datetime \<Rightarrow> (string \<Rightarrow> string option) \<Rightarrow> task \<Rightarrow> db \<Rightarrow> (failure + unit) \<times> db" where
  "run_task now transport (SendRealtime n u) d = send_realtime_notification now n u d"
| "run_task now transport (SendEmail n u) d = send_notification_email now transport n u d"
| "run_task now transport (SendPush n u) d = send_notification_push now n u d"

subsection \<open>Python's \<open>str.format\<close> with keyword arguments\<close>

text \<open>
  The templates are rendered with \<open>str.format\<close>, the context unpacked into keyword
  arguments: there are no positional arguments.
  A context value is held as its text (\<open>str(value)\<close>), which is what a field without
  conversion and without format specification substitutes.

  The scanner follows the format-string syntax: literal text; \<open>{{\<close> and \<open>}}\<close> for a
  literal brace; a replacement field \<open>{name}\<close>, \<open>{name!c}\<close>, \<open>{name:spec}\<close> or
  \<open>{name!c:spec}\<close>, where the specification may nest braces. A lone \<open>{\<close> or \<open>}\<close>, a
  \<open>{\<close> inside a field name and an unfinished field raise \<open>ValueError\<close>.

  A field is looked up by the part of its name before the first \<open>.\<close> or \<open>[\<close>. An empty or
  all-digit first part names a positional argument, of which there are none:
  \<open>IndexError\<close> (\<open>ValueError\<close> for a number too large to be an index). A name that is not a key of the context raises \<open>KeyError\<close>. What an
  attribute or index access, a conversion or a format specification does with the value
  depends on the Python value and is the parameter \<open>fx\<close>.
\<close>

type_synonym kwargs = "string \<rightharpoonup> string"

type_synonym field_ext =
  "kwargs \<Rightarrow> string \<Rightarrow> string \<Rightarrow> char option \<Rightarrow> string \<Rightarrow> py_error + string"

definition is_digit :: "char \<Rightarrow> bool" where
  "is_digit c = (CHR ''0'' \<le> c \<and> c \<le> CHR ''9'')"

definition is_word :: "char \<Rightarrow> bool" where
  "is_word c =
     ((CHR ''a'' \<le> c \<and> c \<le> CHR ''z'') \<or> (CHR ''A'' \<le> c \<and> c \<le> CHR ''Z'')
      \<or> is_digit c \<or> c = CHR ''_'')"

definition name_stop :: "char \<Rightarrow> bool" where
  "name_stop c = (c = CHR ''.'' \<or> c = CHR ''['')"

text \<open>
  The value of a string of decimal digits, and the largest index that the scanner
  accepts (\<open>PY_SSIZE_T_MAX\<close> of a 64-bit build); a larger number in a field name
  raises \<open>ValueError\<close>.
\<close>

definition decimal_value :: "string \<Rightarrow> nat" where
  "decimal_value s = foldl (\<lambda>acc c. 10 * acc + (of_char c - 48)) 0 s"

definition ssize_max :: nat where
  "ssize_max = 2 ^ 63 - 1"

definition render_field ::
  "field_ext \<Rightarrow> kwargs \<Rightarrow> string \<Rightarrow> char option \<Rightarrow> string \<Rightarrow> py_error + string" where
  "render_field fx ctx field_name conversion spec =
     (let first = takeWhile (\<lambda>c. \<not> name_stop c) field_name;
          rest = dropWhile (\<lambda>c. \<not> name_stop c) field_name
      in if first = [] then Inl IndexError
         else if list_all is_digit first then
           (if decimal_value first > ssize_max then Inl ValueError else Inl IndexError)
         else case ctx first of
                None \<Rightarrow> Inl (KeyError first)
              | Some v \<Rightarrow>
                  if rest = [] \<and> conversion = None \<and> spec = [] then Inr v
                  else fx ctx v rest conversion spec)"

text \<open>Output is produced left to right, so the first error from the left is the one raised.\<close>

definition emit :: "py_error + string \<Rightarrow> py_error + string \<Rightarrow> py_error + string" where
  "emit r rest =
     (case r of
        Inl e \<Rightarrow> Inl e
      | Inr out \<Rightarrow> (case rest of Inl e \<Rightarrow> Inl e | Inr t \<Rightarrow> Inr (out @ t)))"

datatype scan_state =
    Text
  | FieldName string
  | Bracket string
  | Conversion string
  | Spec string "char option" nat string

fun format_scan ::
  "field_ext \<Rightarrow> kwargs \<Rightarrow> scan_state \<Rightarrow> string \<Rightarrow> py_error + string" where
  "format_scan fx ctx Text [] = Inr []"
| "format_scan fx ctx Text (c # cs) =
     (if c = CHR ''{'' then
        (case cs of
           [] \<Rightarrow> Inl ValueError
         | d # ds \<Rightarrow>
             if d = CHR ''{'' then emit (Inr [CHR ''{'']) (format_scan fx ctx Text ds)
             else format_scan fx ctx (FieldName []) cs)
      else if c = CHR ''}'' then
        (case cs of
           [] \<Rightarrow> Inl ValueError
         | d # ds \<Rightarrow>
             if d = CHR ''}'' then emit (Inr [CHR ''}'']) (format_scan fx ctx Text ds)
             else Inl ValueError)
      else emit (Inr [c]) (format_scan fx ctx Text cs))"
| "format_scan fx ctx (FieldName acc) [] = Inl ValueError"
| "format_scan fx ctx (FieldName acc) (c # cs) =
     (if c = CHR ''{'' then Inl ValueError
      else if c = CHR ''['' then format_scan fx ctx (Bracket (acc @ [c])) cs
      else if c = CHR ''}'' then
        emit (render_field fx ctx acc None []) (format_scan fx ctx Text cs)
      else if c = CHR '':'' then format_scan fx ctx (Spec acc None 1 []) cs
      else if c = CHR ''!'' then format_scan fx ctx (Conversion acc) cs
      else format_scan fx ctx (FieldName (acc @ [c])) cs)"
| "format_scan fx ctx (Bracket acc) [] = Inl ValueError"
| "format_scan fx ctx (Bracket acc) (c # cs) =
     (if c = CHR '']'' then format_scan fx ctx (FieldName (acc @ [c])) cs
      else format_scan fx ctx (Bracket (acc @ [c])) cs)"
| "format_scan fx ctx (Conversion acc) [] = Inl ValueError"
| "format_scan fx ctx (Conversion acc) (c # cs) =
     (case cs of
        [] \<Rightarrow> Inl ValueError
      | d # ds \<Rightarrow>
          if d = CHR ''}'' then
            emit (render_field fx ctx acc (Some c) []) (format_scan fx ctx Text ds)
          else if d = CHR '':'' then format_scan fx ctx (Spec acc (Some c) 1 []) ds
          else Inl ValueError)"
| "format_scan fx ctx (Spec acc conv depth sp) [] = Inl ValueError"
| "format_scan fx ctx (Spec acc conv depth sp) (c # cs) =
     (if c = CHR ''{'' then format_scan fx ctx (Spec acc conv (Suc depth) (sp @ [c])) cs
      else if c = CHR ''}'' then
        (if depth = 1 then
           emit (render_field fx ctx acc conv sp) (format_scan fx ctx Text cs)
         else format_scan fx ctx (Spec acc conv (depth - 1) (sp @ [c])) cs)
      else format_scan fx ctx (Spec acc conv depth (sp @ [c])) cs)"

definition py_format :: "field_ext \<Rightarrow> kwargs \<Rightarrow> string \<Rightarrow> py_error + string" where
  "py_format fx ctx template = format_scan fx ctx Text template"

subsection \<open>NotificationTemplate (models.py)\<close>

record template =
  t_name :: string
  title_template :: string
  message_template :: string
  t_notification_type :: string
  template_variables :: "(string \<times> string) list"
  t_is_priority :: bool
  default_target_url :: string
  t_action_required :: bool
  usage_count :: nat
  last_used :: "datetime option"

record rendered =
  r_title :: string
  r_message :: string
  r_notification_type :: string
  r_is_priority :: bool
  r_action_required :: bool
  r_target_url :: string

text \<open>\<open>render(self, context=None)\<close>: the title first, then the message.\<close>

definition render :: "field_ext \<Rightarrow> template \<Rightarrow> kwargs option \<Rightarrow> py_error + rendered" where
  "render fx t context =
     (let ctx = (case context of None \<Rightarrow> Map.empty | Some c \<Rightarrow> c) in
      case py_format fx ctx (title_template t) of
        Inl e \<Rightarrow> Inl e
      | Inr ttl \<Rightarrow>
         (case py_format fx ctx (message_template t) of
            Inl e \<Rightarrow> Inl e
          | Inr msg \<Rightarrow>
              Inr \<lparr> r_title = ttl, r_message = msg,
                    r_notification_type = t_notification_type t,
                    r_is_priority = t_is_priority t,
                    r_action_required = t_action_required t,
                    r_target_url = (case ctx ''target_url'' of
                                      Some v \<Rightarrow> v
                                    | None \<Rightarrow> default_target_url t) \<rparr>))"

text \<open>
  \<open>create_notification(self, user, context=None)\<close> for the user \<open>u\<close> with id \<open>uid\<close>:
  render, store the notification, then count the use on the template. An exception
  from rendering or from storing leaves the function before the count. The result is
  the notification or the exception, the template row and the database.
\<close>

definition create_notification ::
  "field_ext \<Rightarrow> datetime \<Rightarrow> template \<Rightarrow> nat \<Rightarrow> user \<Rightarrow> kwargs option \<Rightarrow> db
     \<Rightarrow> (py_error + notification) \<times> template \<times> db" where
  "create_notification fx now t uid u context d =
     (case render fx t context of
        Inl e \<Rightarrow> (Inl e, t, d)
      | Inr r \<Rightarrow>
         (case objects_create now u
                 \<lparr> nid = 0, owner = uid, title = r_title r, message = r_message r,
                   notification_type = r_notification_type r, is_read = False,
                   is_priority = r_is_priority r, is_archived = False,
                   created_at = now, read_at = None, expires_at = None,
                   source = ''template:'' @ t_name t, target_url = r_target_url r,
                   action_required = r_action_required r \<rparr> d of
            (Inl e, d') \<Rightarrow> (Inl e, t, d')
          | (Inr n, d') \<Rightarrow>
              (Inr n, t\<lparr>usage_count := usage_count t + 1, last_used := Some now\<rparr>, d')))"

subsection \<open>Templates made of text and plain placeholders\<close>

text \<open>
  A template text written as pieces: literal text without braces, and placeholders
  \<open>{name}\<close> whose name is a word that is not a number.
\<close>

datatype piece = Lit string | Var string

fun piece_ok :: "piece \<Rightarrow> bool" where
  "piece_ok (Lit s) = list_all (\<lambda>c. c \<noteq> CHR ''{'' \<and> c \<noteq> CHR ''}'') s"
| "piece_ok (Var n) = (n \<noteq> [] \<and> list_all is_word n \<and> \<not> list_all is_digit n)"

fun piece_text :: "piece \<Rightarrow> string" where
  "piece_text (Lit s) = s"
| "piece_text (Var n) = CHR ''{'' # n @ [CHR ''}'']"

definition template_text :: "piece list \<Rightarrow> string" where
  "template_text ps = concat (map piece_text ps)"

fun piece_vars :: "piece \<Rightarrow> string list" where
  "piece_vars (Lit s) = []"
| "piece_vars (Var n) = [n]"

definition used_vars :: "piece list \<Rightarrow> string list" where
  "used_vars ps = concat (map piece_vars ps)"

fun piece_value :: "kwargs \<Rightarrow> piece \<Rightarrow> string" where
  "piece_value ctx (Lit s) = s"
| "piece_value ctx (Var n) = (case ctx n of Some v \<Rightarrow> v | None \<Rightarrow> [])"

definition substituted :: "kwargs \<Rightarrow> piece list \<Rightarrow> string" where
  "substituted ctx ps = concat (map (piece_value ctx) ps)"

subsection \<open>Template form validation (forms.py)\<close>

text \<open>
  \<open>re.findall(r'\{(\w+)\}', s)\<close>: the matches from left to right, not overlapping. At an
  opening brace the longest run of word characters is taken; the match needs the run
  to be non-empty and a closing brace after it, and the search goes on behind that
  brace. Without a match the search goes on at the next character.
\<close>

function findall_placeholders :: "string \<Rightarrow> string list" where
  "findall_placeholders [] = []"
| "findall_placeholders (c # cs) =
     (if c = CHR ''{'' \<and> takeWhile is_word cs \<noteq> []
         \<and> dropWhile is_word cs \<noteq> [] \<and> hd (dropWhile is_word cs) = CHR ''}''
      then takeWhile is_word cs # findall_placeholders (tl (dropWhile is_word cs))
      else findall_placeholders cs)"
  by pat_completeness auto
termination
proof (relation "measure length")
  show "wf (measure length)" by simp
next
  fix c :: char and cs :: string
  have "length (dropWhile is_word cs) \<le> length cs"
    by (rule length_dropWhile_le)
  then have "length (tl (dropWhile is_word cs)) < Suc (length cs)"
    by simp
  then show "(tl (dropWhile is_word cs), c # cs) \<in> measure length" by simp
next
  fix c :: char and cs :: string
  show "(cs, c # cs) \<in> measure length" by simp
qed

text \<open>
  The cleaned data that \<open>clean\<close> reads. A field that failed its own validation is
  missing (\<open>None\<close>); \<open>template_variables\<close> is the declared JSON object as the list
  of its entries, \<open>None\<close> when the key is missing or holds \<open>None\<close>.
\<close>

record cleaned_data =
  cd_title_template :: "string option"
  cd_message_template :: "string option"
  cd_template_variables :: "(string \<times> string) list option"

text \<open>
  \<open>NotificationTemplateForm.clean\<close>. \<open>re.findall\<close> on a missing field raises
  \<open>TypeError\<close>. The test \<open>if template_variables:\<close> holds for a non-empty object only.
\<close>

definition clean :: "cleaned_data \<Rightarrow> py_error + cleaned_data" where
  "clean cd =
     (case cd_title_template cd of
        None \<Rightarrow> Inl TypeError
      | Some title_text \<Rightarrow>
         (case cd_message_template cd of
            None \<Rightarrow> Inl TypeError
          | Some message_text \<Rightarrow>
             (let title_vars = set (findall_placeholders title_text);
                  message_vars = set (findall_placeholders message_text);
                  all_vars = title_vars \<union> message_vars
              in case cd_template_variables cd of
                   None \<Rightarrow> Inr cd
                 | Some tv \<Rightarrow>
                     if tv \<noteq> [] then
                       (let template_vars = set (map fst tv);
                            missing_vars = all_vars - template_vars
                        in if missing_vars \<noteq> {} then Inl (ValidationError missing_vars)
                           else Inr cd)
                     else Inr cd)))"

subsection \<open>NotificationBatch (models.py) and batch processing (tasks.py)\<close>

datatype batch_status = Pending | Sending | Completed | BatchFailed

text \<open>
  An entry of \<open>metadata['user_ids']\<close>: a value that the user table accepts as an id, or
  one that it rejects (\<open>User.objects.get(id='abc')\<close> raises \<open>ValueError\<close>).
\<close>

datatype recipient = UserId nat | NotAnId string

record batch =
  b_name :: string
  total_count :: nat
  sent_count :: nat
  delivered_count :: nat
  read_count :: nat
  failed_count :: nat
  b_status :: batch_status
  started_at :: "datetime option"
  completed_at :: "datetime option"
  b_template :: "template option"
  b_context :: kwargs
  user_ids :: "recipient list"

definition start_sending :: "datetime \<Rightarrow> batch \<Rightarrow> batch" where
  "start_sending now b = b\<lparr>b_status := Sending, started_at := Some now\<rparr>"

definition complete :: "datetime \<Rightarrow> batch \<Rightarrow> batch" where
  "complete now b = b\<lparr>b_status := Completed, completed_at := Some now\<rparr>"

definition fail :: "datetime \<Rightarrow> batch \<Rightarrow> batch" where
  "fail now b = b\<lparr>b_status := BatchFailed, completed_at := Some now\<rparr>"

text \<open>
  The batch that \<open>create_notification_batch\<close> (views.py) and \<open>send_batch_notification\<close>
  store: \<open>total_count=len(user_ids)\<close>, the other counters at their default 0, status
  \<open>pending\<close>.
\<close>

definition new_batch :: "string \<Rightarrow> template \<Rightarrow> kwargs \<Rightarrow> recipient list \<Rightarrow> batch" where
  "new_batch name t ctx ids =
     \<lparr> b_name = name, total_count = length ids, sent_count = 0, delivered_count = 0,
       read_count = 0, failed_count = 0, b_status = Pending, started_at = None,
       completed_at = None, b_template = Some t, b_context = ctx, user_ids = ids \<rparr>"

text \<open>\<open>User.objects.get(id=user_id)\<close> for an entry of the recipient list.\<close>

fun get_user :: "db \<Rightarrow> recipient \<Rightarrow> py_error + nat \<times> user" where
  "get_user d (NotAnId s) = Inl ValueError"
| "get_user d (UserId i) =
     (case users d i of None \<Rightarrow> Inl DoesNotExist | Some u \<Rightarrow> Inr (i, u))"

text \<open>
  The body of the loop of \<open>process_notification_batch\<close> for one recipient, on the batch
  row, the database and the list of notifications created so far. Both handlers of the
  \<open>try\<close> statement, the one for \<open>User.DoesNotExist\<close> and the one for any other
  exception, add one to \<open>failed_count\<close>; they cover every statement of the body, also
  those after \<open>sent_count\<close> was raised.
\<close>

definition count_failure :: "batch \<Rightarrow> batch" where
  "count_failure b = b\<lparr>failed_count := failed_count b + 1\<rparr>"

definition process_recipient ::
  "field_ext \<Rightarrow> datetime \<Rightarrow> recipient \<Rightarrow> batch \<times> db \<times> notification list
     \<Rightarrow> batch \<times> db \<times> notification list" where
  "process_recipient fx now user_id state =
     (let (b, d, created_notifications) = state in
      case get_user d user_id of
        Inl e \<Rightarrow> (count_failure b, d, created_notifications)
      | Inr (uid, u) \<Rightarrow>
         (let ctx = (b_context b)
                      (''user_name'' \<mapsto> (if full_name u \<noteq> [] then full_name u
                                           else username u),
                       ''user_email'' \<mapsto> email u)
          in case b_template b of
               None \<Rightarrow> (count_failure b, d, created_notifications)
             | Some t \<Rightarrow>
                (case create_notification fx now t uid u (Some ctx) d of
                   (Inl e, t', d') \<Rightarrow>
                     (count_failure (b\<lparr>b_template := Some t'\<rparr>), d', created_notifications)
                 | (Inr n, t', d') \<Rightarrow>
                    (let b1 = b\<lparr>b_template := Some t', sent_count := sent_count b + 1\<rparr>;
                         created1 = created_notifications @ [n];
                         d1 = delay_task (SendRealtime (nid n) uid) d'
                     in case notificationpreference u of
                          None \<Rightarrow> (count_failure b1, d1, created1)
                        | Some preference \<Rightarrow>
                           (let d2 = (if email_notifications preference
                                      then delay_task (SendEmail (nid n) uid) d1 else d1);
                                d3 = (if push_notifications preference
                                      then delay_task (SendPush (nid n) uid) d2 else d2)
                            in (b1, d3, created1))))))"

fun process_recipients ::
  "field_ext \<Rightarrow> datetime \<Rightarrow> recipient list \<Rightarrow> batch \<times> db \<times> notification list
     \<Rightarrow> batch \<times> db \<times> notification list" where
  "process_recipients fx now [] state = state"
| "process_recipients fx now (user_id # rest) state =
     process_recipients fx now rest (process_recipient fx now user_id state)"

text \<open>
  \<open>process_notification_batch\<close> on the batch row: on success the number of notifications
  created and \<open>failed_count\<close>.
\<close>

definition process_notification_batch ::
  "field_ext \<Rightarrow> datetime \<Rightarrow> batch \<Rightarrow> db \<Rightarrow> (failure + nat \<times> nat) \<times> batch \<times> db" where
  "process_notification_batch fx now batch d =
     (if b_status batch \<noteq> Pending
      then (Inl (Reason ''Batch not in pending status''), batch, d)
      else
        (let b1 = start_sending now batch in
         if user_ids b1 = [] then (Inl (Reason ''No user IDs found''), fail now b1, d)
         else
           (let (b2, d2, created_notifications) =
                  process_recipients fx now (user_ids b1) (b1, d, []);
                b3 = complete now b2
            in (Inr (length created_notifications, failed_count b3), b3, d2))))"

subsection \<open>Cleanup (tasks.py)\<close>

text \<open>
  \<open>Notification.objects.filter(...).delete()[0]\<close>: the matching notifications are
  deleted together with the history rows that refer to them (\<open>on_delete=CASCADE\<close>); the
  number returned counts both.
\<close>

definition delete_notifications :: "(notification \<Rightarrow> bool) \<Rightarrow> db \<Rightarrow> nat \<times> db" where
  "delete_notifications P d =
     (let gone = map nid (filter P (notifications d));
          cascade = (\<lambda>h. h_notification h \<in> set gone)
      in (length gone + length (filter cascade (histories d)),
          d\<lparr>notifications := filter (\<lambda>n. \<not> P n) (notifications d),
            histories := filter (\<lambda>h. \<not> cascade h) (histories d)\<rparr>))"

definition delete_histories :: "(history \<Rightarrow> bool) \<Rightarrow> db \<Rightarrow> nat \<times> db" where
  "delete_histories P d =
     (length (filter P (histories d)),
      d\<lparr>histories := filter (\<lambda>h. \<not> P h) (histories d)\<rparr>)"

text \<open>
  The three sweeps of \<open>cleanup_old_notifications\<close>, each with the clock read at \<open>now\<close>.
\<close>

definition cleanup_sweeps :: "datetime \<Rightarrow> db \<Rightarrow> (nat \<times> nat \<times> nat) \<times> db" where
  "cleanup_sweeps now d =
     (let (expired_count, d1) =
            delete_notifications
              (\<lambda>n. case expires_at n of None \<Rightarrow> False | Some e \<Rightarrow> e < now) d;
          ninety_days_ago = now - days 90;
          (old_history_count, d2) =
            delete_histories (\<lambda>h. h_created_at h < ninety_days_ago) d1;
          one_eighty_days_ago = now - days 180;
          (archived_count, d3) =
            delete_notifications
              (\<lambda>n. is_archived n \<and> created_at n < one_eighty_days_ago) d2
      in ((expired_count, old_history_count, archived_count), d3))"

text \<open>
  Reading a local variable: \<open>NameError\<close> for a name that the function never bound.
\<close>

definition read_local :: "(string \<times> nat) list \<Rightarrow> string \<Rightarrow> py_error + nat" where
  "read_local locals name =
     (case map_of locals name of None \<Rightarrow> Inl (NameError name) | Some v \<Rightarrow> Inr v)"

text \<open>
  \<open>cleanup_old_notifications\<close>: the sweeps, then the log line, whose text reads the
  names \<open>expired_count\<close>, \<open>old_history_count\<close> and \<open>archared_count\<close>, then the report.
  An exception anywhere is caught and reported as a failure; the sweeps are not undone.
\<close>

definition cleanup_old_notifications ::
  "datetime \<Rightarrow> db \<Rightarrow> (failure + nat \<times> nat \<times> nat) \<times> db" where
  "cleanup_old_notifications now d =
     (let ((expired_count, old_history_count, archived_count), d3) = cleanup_sweeps now d;
          locals = [(''expired_count'', expired_count),
                    (''old_history_count'', old_history_count),
                    (''archived_count'', archived_count)]
      in case read_local locals ''expired_count'' of
           Inl e \<Rightarrow> (Inl (Raised e), add_log (LogError e) d3)
         | Inr a \<Rightarrow>
            (case read_local locals ''old_history_count'' of
               Inl e \<Rightarrow> (Inl (Raised e), add_log (LogError e) d3)
             | Inr b \<Rightarrow>
                (case read_local locals ''archared_count'' of
                   Inl e \<Rightarrow> (Inl (Raised e), add_log (LogError e) d3)
                 | Inr c \<Rightarrow>
                    (Inr (expired_count, old_history_count, archived_count),
                     add_log (LogInfo ''Cleanup completed'') d3))))"

subsection \<open>Sample data\<close>

text \<open>Concrete rows on which the theorems below are instantiated.\<close>

definition ada :: user where
  "ada = \<lparr> username = ''ada'', full_name = ''Ada Lovelace'', email = ''ada@example.org'',
           push_notification_token = None,
           notificationpreference = Some default_preference \<rparr>"

definition hello :: notification where
  "hello = \<lparr> nid = 1, owner = 1, title = ''Hello'', message = ''Welcome'',
             notification_type = ''info'', is_read = False, is_priority = False,
             is_archived = False, created_at = 0, read_at = None, expires_at = None,
             source = ''test'', target_url = [], action_required = False \<rparr>"

definition empty_db :: db where
  "empty_db = \<lparr> users = Map.empty, notifications = [], histories = [], next_id = 1,
                queue = [], published = [], outbox = [], log = [] \<rparr>"

text \<open>A database with the user \<open>u\<close> under id 1 and the notification \<open>hello\<close>.\<close>

definition db_with :: "user \<Rightarrow> db" where
  "db_with u = empty_db\<lparr>users := [1 \<mapsto> u], notifications := [hello], next_id := 2\<rparr>"

text \<open>The same user without a preference record.\<close>

definition ada_without_preference :: user where
  "ada_without_preference = ada\<lparr>notificationpreference := None\<rparr>"

text \<open>
  Do-not-disturb switched on at time 1000 for one hour, every channel enabled and every
  type allowed.
\<close>

definition dnd_preference :: preference where
  "dnd_preference =
     default_preference\<lparr>do_not_disturb := True,
                         do_not_disturb_until := Some (1000 + usec_per_hour)\<rparr>"

definition ada_dnd :: user where
  "ada_dnd = ada\<lparr>notificationpreference := Some dnd_preference\<rparr>"

text \<open>Email enabled, as a daily digest.\<close>

definition daily_preference :: preference where
  "daily_preference = default_preference\<lparr>email_frequency := ''daily''\<rparr>"

definition ada_daily :: user where
  "ada_daily = ada\<lparr>notificationpreference := Some daily_preference\<rparr>"

text \<open>A mail transport that accepts every mail.\<close>

definition mail_ok :: "string \<Rightarrow> string option" where
  "mail_ok address = None"

text \<open>A stand-in for the field operations, for templates that use none.\<close>

definition no_field_ext :: field_ext where
  "no_field_ext ctx v rest conversion spec = Inl ValueError"

definition template_of :: "string \<Rightarrow> string \<Rightarrow> template" where
  "template_of ttl msg =
     \<lparr> t_name = ''welcome'', title_template = ttl, message_template = msg,
       t_notification_type = ''info'', template_variables = [(''name'', ''the name'')],
       t_is_priority = False, default_target_url = [], t_action_required = False,
       usage_count = 0, last_used = None \<rparr>"

section \<open>Properties\<close>

subsection \<open>Preferences\<close>

text \<open>
  The decision of \<open>should_send_notification\<close> does not depend on the maps \<open>email_types\<close>
  and \<open>push_types\<close>: the map read is always \<open>in_app_types\<close>.
\<close>

lemma should_send_ignores_channel_maps:
  "should_send_notification now (p\<lparr>email_types := m1, push_types := m2\<rparr>) ty t
     = should_send_notification now p ty t"
  by (simp add: should_send_notification_def get_channel_type_def types_attr_def)

text \<open>
  Claim C1. With neither do-not-disturb nor quiet hours in force, the decision for a
  channel is to follow the type-allow map of that channel. On the code it does not for
  the email channel: a user whose \<open>email_types\<close> map holds \<open>info: false\<close>, and whose
  \<open>in_app_types\<close> map allows \<open>info\<close>, is still sent the email. The theorem evaluates
  \<open>should_send_notification\<close> and the email task on that record.
\<close>

theorem C1_email_types_not_consulted:
  "email_types (default_preference\<lparr>email_types := [''info'' \<mapsto> False]\<rparr>) ''info''
     = Some False
   \<and> should_send_notification 0
        (default_preference\<lparr>email_types := [''info'' \<mapsto> False]\<rparr>) ''info'' None = True
   \<and> send_notification_email 0 mail_ok 1 1
        (db_with (ada\<lparr>notificationpreference :=
                         Some (default_preference\<lparr>email_types := [''info'' \<mapsto> False]\<rparr>)\<rparr>))
      = (Inr (),
         (db_with (ada\<lparr>notificationpreference :=
                         Some (default_preference\<lparr>email_types := [''info'' \<mapsto> False]\<rparr>)\<rparr>))
           \<lparr>histories := [new_history 0 1 1 Email Sent None],
            outbox := [(''ada@example.org'', ''Hello'')]\<rparr>)"
  by (simp add: should_send_notification_def get_channel_type_def types_attr_def
      default_preference_def all_true_def send_notification_email_def
      get_notification_def db_with_def empty_db_def hello_def ada_def mail_ok_def
      add_history_def)

text \<open>
  Claim C2, as stated: with \<open>do_not_disturb\<close> set and \<open>do_not_disturb_until\<close> unset the
  decision is false. On the code it is true for such a record when nothing else
  suppresses the notification.
\<close>

theorem C2_dnd_without_until_counterexample:
  "do_not_disturb (default_preference\<lparr>do_not_disturb := True\<rparr>)
   \<and> do_not_disturb_until (default_preference\<lparr>do_not_disturb := True\<rparr>) = None
   \<and> should_send_notification 0 (default_preference\<lparr>do_not_disturb := True\<rparr>)
        ''info'' None = True"
  by (simp add: should_send_notification_def get_channel_type_def types_attr_def
      default_preference_def all_true_def)

text \<open>
  Claim C2, amended: for every preference record with \<open>do_not_disturb\<close> set and
  \<open>do_not_disturb_until\<close> set, every notification type and every evaluation time earlier
  than \<open>do_not_disturb_until\<close>, the decision is false, whatever the quiet-hours settings
  and the type-allow maps are. The evaluation time is the time passed, or the current
  time when none is passed.
\<close>

theorem C2_dnd_before_until_suppresses:
  assumes "do_not_disturb p"
    and "do_not_disturb_until p = Some u"
    and "(case at_time of None \<Rightarrow> now | Some t \<Rightarrow> t) < u"
  shows "should_send_notification now p ntype at_time = False"
  using assms by (simp add: should_send_notification_def)

theorem C2_dnd_before_until_suppresses_witness:
  "do_not_disturb (default_preference\<lparr>do_not_disturb := True, do_not_disturb_until := Some 10\<rparr>)
   \<and> do_not_disturb_until
        (default_preference\<lparr>do_not_disturb := True, do_not_disturb_until := Some 10\<rparr>)
       = Some 10
   \<and> (case Some 5 of None \<Rightarrow> 0 | Some t \<Rightarrow> t) < (10::int)
   \<and> should_send_notification 0
        (default_preference\<lparr>do_not_disturb := True, do_not_disturb_until := Some 10\<rparr>)
        ''info'' (Some 5) = False"
  using C2_dnd_before_until_suppresses
          [where p = "default_preference\<lparr>do_not_disturb := True,
                                             do_not_disturb_until := Some 10\<rparr>"
             and u = 10 and at_time = "Some 5" and now = 0 and ntype = "''info''"]
  by (simp add: default_preference_def)

subsection \<open>History rows\<close>

text \<open>
  Claim C7, as stated: the status-update operations never move a row backward, and a
  failed row stays failed. On the code \<open>mark_delivered\<close> takes a row in state \<open>read\<close>
  back to \<open>delivered\<close>, and \<open>mark_read\<close> takes a failed row to \<open>read\<close>; neither raises.
\<close>

theorem C7_backward_move_counterexample:
  "h_status (mark_delivered 5 (new_history 0 1 1 InApp Read None)) = Delivered
   \<and> stage Read = Some 3 \<and> stage Delivered = Some 2
   \<and> h_status (mark_read 5 (new_history 0 1 1 Email Failed None)) = Read"
  by (simp add: mark_delivered_def mark_read_def new_history_def)

text \<open>
  Claim C7, amended: each of \<open>mark_delivered\<close>, \<open>mark_read\<close>, \<open>mark_clicked\<close> and
  \<open>mark_dismissed\<close> leaves the row in its own target status, whatever the status before
  was; it changes nothing but the status and its own timestamp; on a row that already
  has the target status, however that row came to be, it changes nothing at all; and
  applied a second time it leaves the row as the first application left it. No order
  of the statuses is enforced and no error is raised.
\<close>

theorem C7_mark_sets_own_status:
  "h_status (mark_delivered now h) = Delivered
   \<and> h_status (mark_read now h) = Read
   \<and> h_status (mark_clicked now h) = Clicked
   \<and> h_status (mark_dismissed now h) = Dismissed
   \<and> mark_delivered now h\<lparr>h_status := s, delivered_at := a\<rparr> = h\<lparr>h_status := s, delivered_at := a\<rparr>
   \<and> mark_read now h\<lparr>h_status := s, h_read_at := a\<rparr> = h\<lparr>h_status := s, h_read_at := a\<rparr>
   \<and> mark_clicked now h\<lparr>h_status := s, clicked_at := a\<rparr> = h\<lparr>h_status := s, clicked_at := a\<rparr>
   \<and> mark_dismissed now h\<lparr>h_status := s, dismissed_at := a\<rparr>
       = h\<lparr>h_status := s, dismissed_at := a\<rparr>
   \<and> mark_delivered later (mark_delivered now h) = mark_delivered now h
   \<and> mark_read later (mark_read now h) = mark_read now h
   \<and> mark_clicked later (mark_clicked now h) = mark_clicked now h
   \<and> mark_dismissed later (mark_dismissed now h) = mark_dismissed now h
   \<and> (h_status h = Delivered \<longrightarrow> mark_delivered now h = h)
   \<and> (h_status h = Read \<longrightarrow> mark_read now h = h)
   \<and> (h_status h = Clicked \<longrightarrow> mark_clicked now h = h)
   \<and> (h_status h = Dismissed \<longrightarrow> mark_dismissed now h = h)"
  by (simp add: mark_delivered_def mark_read_def mark_clicked_def mark_dismissed_def)

theorem C7_mark_sets_own_status_witness:
  "h_status (new_history 0 1 1 InApp Delivered None) = Delivered
   \<and> mark_delivered 5 (new_history 0 1 1 InApp Delivered None)
       = new_history 0 1 1 InApp Delivered None
   \<and> h_status (new_history 0 1 1 InApp Read None) = Read
   \<and> mark_read 5 (new_history 0 1 1 InApp Read None) = new_history 0 1 1 InApp Read None
   \<and> h_status (new_history 0 1 1 InApp Clicked None) = Clicked
   \<and> mark_clicked 5 (new_history 0 1 1 InApp Clicked None)
       = new_history 0 1 1 InApp Clicked None
   \<and> h_status (new_history 0 1 1 InApp Dismissed None) = Dismissed
   \<and> mark_dismissed 5 (new_history 0 1 1 InApp Dismissed None)
       = new_history 0 1 1 InApp Dismissed None"
proof -
  have d: "h_status (new_history 0 1 1 InApp Delivered None) = Delivered"
    and r: "h_status (new_history 0 1 1 InApp Read None) = Read"
    and c: "h_status (new_history 0 1 1 InApp Clicked None) = Clicked"
    and m: "h_status (new_history 0 1 1 InApp Dismissed None) = Dismissed"
    by (simp_all add: new_history_def)
  have 1: "mark_delivered 5 (new_history 0 1 1 InApp Delivered None)
             = new_history 0 1 1 InApp Delivered None"
    using d C7_mark_sets_own_status
              [where now = 5 and h = "new_history 0 1 1 InApp Delivered None"]
    by blast
  have 2: "mark_read 5 (new_history 0 1 1 InApp Read None)
             = new_history 0 1 1 InApp Read None"
    using r C7_mark_sets_own_status
              [where now = 5 and h = "new_history 0 1 1 InApp Read None"]
    by blast
  have 3: "mark_clicked 5 (new_history 0 1 1 InApp Clicked None)
             = new_history 0 1 1 InApp Clicked None"
    using c C7_mark_sets_own_status
              [where now = 5 and h = "new_history 0 1 1 InApp Clicked None"]
    by blast
  have 4: "mark_dismissed 5 (new_history 0 1 1 InApp Dismissed None)
             = new_history 0 1 1 InApp Dismissed None"
    using m C7_mark_sets_own_status
              [where now = 5 and h = "new_history 0 1 1 InApp Dismissed None"]
    by blast
  show ?thesis
    using d r c m 1 2 3 4 by (simp only: simp_thms)
qed

subsection \<open>What the receivers leave untouched\<close>

lemma in_app_block_keeps:
  assumes "in_app_block now n d = (e, d')"
  shows "notifications d' = notifications d" and "queue d' = queue d"
    and "outbox d' = outbox d" and "users d' = users d" and "next_id d' = next_id d"
    and "log d' = log d"
  using assms
  by (auto simp add: in_app_block_def Let_def add_history_def
      split: sum.splits py_error.splits)

lemma dispatch_keeps:
  "notifications (send_notification_via_channels now u n c d) = notifications d"
  "queue (send_notification_via_channels now u n c d) = queue d"
  "outbox (send_notification_via_channels now u n c d) = outbox d"
  "users (send_notification_via_channels now u n c d) = users d"
  "next_id (send_notification_via_channels now u n c d) = next_id d"
  by (auto simp add: send_notification_via_channels_def delay_function_def add_log_def
      split: option.splits prod.splits dest: in_app_block_keeps)

lemma create_history_keeps:
  "notifications (create_notification_history now n c d) = notifications d"
  "users (create_notification_history now n c d) = users d"
  "next_id (create_notification_history now n c d) = next_id d"
  "queue (create_notification_history now n c d) = queue d"
  "outbox (create_notification_history now n c d) = outbox d"
  by (simp_all add: create_notification_history_def add_history_def)

text \<open>
  For a row that was just created the third receiver raises, and writes nothing.
\<close>

lemma handle_scheduled_raises:
  "handle_scheduled_notifications now u n True d = (Some AttributeError, d)"
  by (simp add: handle_scheduled_notifications_def scheduled_time_attr_def)

text \<open>
  So every creation of a notification raises \<open>AttributeError\<close>. By then the row is
  stored and the first two receivers have run; nothing is queued or mailed.
\<close>

lemma objects_create_raises:
  "fst (objects_create now u row d) = Inl AttributeError"
  "snd (objects_create now u row d)
     = send_notification_via_channels now u (row\<lparr>nid := next_id d, created_at := now\<rparr>) True
         (create_notification_history now (row\<lparr>nid := next_id d, created_at := now\<rparr>) True
            (d\<lparr>notifications := notifications d @ [row\<lparr>nid := next_id d, created_at := now\<rparr>],
               next_id := Suc (next_id d)\<rparr>))"
  by (simp_all add: objects_create_def Let_def handle_scheduled_raises)

lemma objects_create_keeps:
  "notifications (snd (objects_create now u row d))
     = notifications d @ [row\<lparr>nid := next_id d, created_at := now\<rparr>]"
  "users (snd (objects_create now u row d)) = users d"
  "next_id (snd (objects_create now u row d)) = Suc (next_id d)"
  "queue (snd (objects_create now u row d)) = queue d"
  "outbox (snd (objects_create now u row d)) = outbox d"
  by (simp_all add: objects_create_raises dispatch_keeps create_history_keeps
      create_notification_history_def add_history_def)


subsection \<open>Dispatch\<close>

text \<open>
  Claim C3, as stated: for a user without a preference record the channels are used as
  if everything were enabled. On the code the dispatcher sends on no channel for such a
  user (it logs a warning), and a channel task reports a failure and sends nothing.
\<close>

theorem C3_missing_preference_counterexample:
  "notificationpreference ada_without_preference = None
   \<and> send_notification_via_channels 0 ada_without_preference hello True
        (db_with ada_without_preference)
      = (db_with ada_without_preference)
          \<lparr>log := [LogWarning ''No notification preferences found'']\<rparr>
   \<and> send_realtime_notification 0 1 1 (db_with ada_without_preference)
      = (Inl (Reason ''User preferences not found''), db_with ada_without_preference)"
  by (simp add: send_notification_via_channels_def send_realtime_notification_def
      get_notification_def db_with_def empty_db_def hello_def ada_def add_log_def
      ada_without_preference_def)

text \<open>
  Claim C3, amended: for every notification whose user has no preference record, the
  dispatcher skips every channel (it only logs a warning: nothing is published, queued
  or written to the history, and no exception leaves it), and each of the three channel
  tasks returns the failure \<open>User preferences not found\<close> and changes nothing.
\<close>

theorem C3_missing_preference_skips_channels:
  assumes "notificationpreference u = None"
    and "users d uid = Some u"
    and "get_notification d i = Some n"
  shows "send_notification_via_channels now u n True d
           = add_log (LogWarning ''No notification preferences found'') d
       \<and> send_realtime_notification now i uid d
           = (Inl (Reason ''User preferences not found''), d)
       \<and> send_notification_email now transport i uid d
           = (Inl (Reason ''User preferences not found''), d)
       \<and> send_notification_push now i uid d
           = (Inl (Reason ''User preferences not found''), d)"
  using assms
  by (simp add: send_notification_via_channels_def send_realtime_notification_def
      send_notification_email_def send_notification_push_def)

theorem C3_missing_preference_skips_channels_witness:
  "notificationpreference ada_without_preference = None
   \<and> users (db_with ada_without_preference) 1 = Some ada_without_preference
   \<and> get_notification (db_with ada_without_preference) 1 = Some hello
   \<and> send_notification_via_channels 0 ada_without_preference hello True
        (db_with ada_without_preference)
      = add_log (LogWarning ''No notification preferences found'')
          (db_with ada_without_preference)
   \<and> send_realtime_notification 0 1 1 (db_with ada_without_preference)
      = (Inl (Reason ''User preferences not found''), db_with ada_without_preference)
   \<and> send_notification_email 0 mail_ok 1 1 (db_with ada_without_preference)
      = (Inl (Reason ''User preferences not found''), db_with ada_without_preference)
   \<and> send_notification_push 0 1 1 (db_with ada_without_preference)
      = (Inl (Reason ''User preferences not found''), db_with ada_without_preference)"
proof -
  have h1: "notificationpreference ada_without_preference = None"
    by (simp add: ada_without_preference_def)
  have h2: "users (db_with ada_without_preference) 1 = Some ada_without_preference"
    by (simp add: db_with_def)
  have h3: "get_notification (db_with ada_without_preference) 1 = Some hello"
    by (simp add: db_with_def get_notification_def hello_def)
  show ?thesis
    using h1 h2 h3
      C3_missing_preference_skips_channels
        [OF h1 h2 h3, where now = 0 and transport = mail_ok]
    by (simp only: simp_thms)
qed

text \<open>
  Claim C8, as stated: with do-not-disturb in force until one hour after the current
  time, a newly created notification ends with no history row on a channel whose
  dispatch tests do-not-disturb. On the code the in-app channel, whose dispatch tests
  it, ends with one row: the receiver \<open>create_notification_history\<close> writes the row in
  state \<open>created\<close> for every new notification and tests nothing.
\<close>

theorem C8_creation_row_counterexample:
  "notificationpreference ada_dnd = Some dnd_preference
   \<and> do_not_disturb dnd_preference
   \<and> do_not_disturb_until dnd_preference = Some (1000 + usec_per_hour)
   \<and> histories (db_with ada_dnd) = []
   \<and> histories (snd (objects_create 1000 ada_dnd hello (db_with ada_dnd)))
       = [new_history 1000 2 1 InApp Created None]"
  by (simp add: objects_create_raises send_notification_via_channels_def ada_dnd_def
      dnd_preference_def default_preference_def should_send_notification_def
      usec_per_hour_def create_notification_history_def add_history_def add_log_def
      db_with_def empty_db_def hello_def)

text \<open>
  Claim C8, amended: for every user whose preference record has \<open>do_not_disturb\<close> true
  and \<open>do_not_disturb_until\<close> one hour after the current time, the functions that test
  do-not-disturb write no history row on any channel, also when
  \<open>in_app_notifications\<close> is true: the dispatcher \<open>send_notification_via_channels\<close> stops
  after the test and only logs, and each of the three channel tasks returns a failure
  and changes nothing. The creation of a notification at that time adds exactly one
  history row, the in-app row in state \<open>created\<close> that \<open>create_notification_history\<close>
  writes without a test.
\<close>

theorem C8_dnd_only_creation_row:
  assumes "notificationpreference u = Some p"
    and "do_not_disturb p"
    and "do_not_disturb_until p = Some (now + usec_per_hour)"
    and "users d uid = Some u"
  shows "send_notification_via_channels now u n True d
           = add_log (LogInfo ''Skipping notification - type disabled'') d
       \<and> histories (send_notification_via_channels now u n True d) = histories d
       \<and> send_realtime_notification now i uid d
           = (if get_notification d i = None then Inl (Reason ''Notification not found'')
              else Inl (Reason ''In-app notifications disabled for this type''), d)
       \<and> send_notification_email now transport i uid d
           = (if get_notification d i = None then Inl (Reason ''Notification not found'')
              else Inl (Reason ''Email notifications disabled for this type''), d)
       \<and> send_notification_push now i uid d
           = (if get_notification d i = None then Inl (Reason ''Notification not found'')
              else Inl (Reason ''Push notifications disabled for this type''), d)
       \<and> histories (snd (objects_create now u row d))
           = histories d @ [new_history now (next_id d) (owner row) InApp Created None]"
proof -
  have s: "should_send_notification now p ty None = False" for ty
    using assms(2,3) by (simp add: should_send_notification_def usec_per_hour_def)
  have c: "histories (snd (objects_create now u row d))
             = histories d @ [new_history now (next_id d) (owner row) InApp Created None]"
    using assms(1)
    by (simp add: objects_create_raises s send_notification_via_channels_def add_log_def
        create_notification_history_def add_history_def)
  show ?thesis
    using assms(1,4) c
    by (simp add: s send_notification_via_channels_def send_realtime_notification_def
        send_notification_email_def send_notification_push_def add_log_def
        split: option.splits)
qed

theorem C8_dnd_only_creation_row_witness:
  "notificationpreference ada_dnd = Some dnd_preference
   \<and> do_not_disturb dnd_preference
   \<and> do_not_disturb_until dnd_preference = Some (1000 + usec_per_hour)
   \<and> in_app_notifications dnd_preference
   \<and> users (db_with ada_dnd) 1 = Some ada_dnd
   \<and> histories (send_notification_via_channels 1000 ada_dnd hello True (db_with ada_dnd)) = []
   \<and> histories (snd (send_realtime_notification 1000 1 1 (db_with ada_dnd))) = []
   \<and> histories (snd (send_notification_email 1000 mail_ok 1 1 (db_with ada_dnd))) = []
   \<and> histories (snd (send_notification_push 1000 1 1 (db_with ada_dnd))) = []
   \<and> histories (snd (objects_create 1000 ada_dnd hello (db_with ada_dnd)))
       = [new_history 1000 2 1 InApp Created None]"
proof -
  have h1: "notificationpreference ada_dnd = Some dnd_preference"
    by (simp add: ada_dnd_def)
  have h2: "do_not_disturb dnd_preference"
    by (simp add: dnd_preference_def)
  have h3: "do_not_disturb_until dnd_preference = Some (1000 + usec_per_hour)"
    by (simp add: dnd_preference_def)
  have h4: "users (db_with ada_dnd) 1 = Some ada_dnd"
    by (simp add: db_with_def)
  have h5: "in_app_notifications dnd_preference"
    by (simp add: dnd_preference_def default_preference_def)
  have e: "histories (db_with ada_dnd) = []"
    by (simp add: db_with_def empty_db_def)
  have k: "next_id (db_with ada_dnd) = 2" and o: "owner hello = 1"
    by (simp_all add: db_with_def hello_def)
  note t = C8_dnd_only_creation_row
             [OF h1 h2 h3 h4, where n = hello and i = 1 and transport = mail_ok
                and row = hello]
  have a: "histories (send_notification_via_channels 1000 ada_dnd hello True
                        (db_with ada_dnd)) = []"
    by (simp only: t [THEN conjunct2, THEN conjunct1] e)
  have b: "histories (snd (send_realtime_notification 1000 1 1 (db_with ada_dnd))) = []"
    by (simp only: t [THEN conjunct2, THEN conjunct2, THEN conjunct1] snd_conv e)
  have c: "histories (snd (send_notification_email 1000 mail_ok 1 1 (db_with ada_dnd))) = []"
    by (simp only: t [THEN conjunct2, THEN conjunct2, THEN conjunct2, THEN conjunct1]
        snd_conv e)
  have d: "histories (snd (send_notification_push 1000 1 1 (db_with ada_dnd))) = []"
    by (simp only: t [THEN conjunct2, THEN conjunct2, THEN conjunct2, THEN conjunct2,
                      THEN conjunct1]
        snd_conv e)
  have f: "histories (snd (objects_create 1000 ada_dnd hello (db_with ada_dnd)))
             = [new_history 1000 2 1 InApp Created None]"
    by (simp only: t [THEN conjunct2, THEN conjunct2, THEN conjunct2, THEN conjunct2,
                      THEN conjunct2]
        e k o append_Nil)
  show ?thesis
    using h1 h2 h3 h4 h5 a b c d f by (simp only: simp_thms)
qed

text \<open>
  Claim C10. For a user with a preference record whose \<open>email_frequency\<close> is not
  \<open>immediate\<close>, the dispatcher behaves as it does with the email channel switched off:
  the email branch is not entered. The dispatcher puts nothing on the task queue and
  hands nothing to the mail transport, and neither does the creation of a
  notification as a whole.
\<close>

theorem C10_email_only_when_immediate:
  assumes "notificationpreference u = Some p"
    and "email_frequency p \<noteq> ''immediate''"
  shows "send_notification_via_channels now u n True d
           = send_notification_via_channels now
               (u\<lparr>notificationpreference := Some (p\<lparr>email_notifications := False\<rparr>)\<rparr>)
               n True d
       \<and> queue (send_notification_via_channels now u n True d) = queue d
       \<and> outbox (send_notification_via_channels now u n True d) = outbox d
       \<and> queue (snd (objects_create now u row d)) = queue d
       \<and> outbox (snd (objects_create now u row d)) = outbox d"
proof -
  have s: "should_send_notification now (p\<lparr>email_notifications := False\<rparr>) ty t
             = should_send_notification now p ty t" for ty t
    by (simp add: should_send_notification_def get_channel_type_def types_attr_def)
  have hp: "has_push_token (u\<lparr>notificationpreference := x\<rparr>) = has_push_token u" for x
    by (simp add: has_push_token_def)
  obtain e d1 where b: "in_app_block now n d = (e, d1)"
    by (cases "in_app_block now n d")
  have 1: "send_notification_via_channels now u n True d
           = send_notification_via_channels now
               (u\<lparr>notificationpreference := Some (p\<lparr>email_notifications := False\<rparr>)\<rparr>)
               n True d"
    using assms by (cases e) (simp_all add: send_notification_via_channels_def s hp b)
  show ?thesis using 1 by (simp add: dispatch_keeps objects_create_keeps)
qed

theorem C10_email_only_when_immediate_witness:
  "notificationpreference ada_daily = Some daily_preference
   \<and> email_notifications daily_preference
   \<and> email_frequency daily_preference \<noteq> ''immediate''
   \<and> should_send_notification 0 daily_preference (notification_type hello) None
   \<and> queue (send_notification_via_channels 0 ada_daily hello True (db_with ada_daily)) = []
   \<and> outbox (send_notification_via_channels 0 ada_daily hello True (db_with ada_daily)) = []
   \<and> queue (snd (objects_create 0 ada_daily hello (db_with ada_daily))) = []
   \<and> outbox (snd (objects_create 0 ada_daily hello (db_with ada_daily))) = []"
proof -
  have h1: "notificationpreference ada_daily = Some daily_preference"
    by (simp add: ada_daily_def)
  have h2: "email_frequency daily_preference \<noteq> ''immediate''"
    by (simp add: daily_preference_def)
  have h3: "email_notifications daily_preference
            \<and> should_send_notification 0 daily_preference (notification_type hello) None"
    by (simp add: daily_preference_def default_preference_def should_send_notification_def
        get_channel_type_def types_attr_def all_true_def hello_def)
  have e: "queue (db_with ada_daily) = [] \<and> outbox (db_with ada_daily) = []"
    by (simp add: db_with_def empty_db_def)
  have "queue (send_notification_via_channels 0 ada_daily hello True (db_with ada_daily))
          = queue (db_with ada_daily)
        \<and> outbox (send_notification_via_channels 0 ada_daily hello True (db_with ada_daily))
          = outbox (db_with ada_daily)
        \<and> queue (snd (objects_create 0 ada_daily hello (db_with ada_daily)))
          = queue (db_with ada_daily)
        \<and> outbox (snd (objects_create 0 ada_daily hello (db_with ada_daily)))
          = outbox (db_with ada_daily)"
    using C10_email_only_when_immediate
            [OF h1 h2, where now = 0 and n = hello and d = "db_with ada_daily"
               and row = hello]
    by blast
  then show ?thesis using h1 h2 h3 e by simp
qed

text \<open>
  With the frequency \<open>immediate\<close> the email branch is entered. There the call
  \<open>send_notification_email_task.delay\<close> raises, the receiver logs the error, and the push
  branch is not reached.
\<close>

lemma dispatch_immediate_email_raises:
  assumes "notificationpreference u = Some p"
    and "should_send_notification now p (notification_type n) None"
    and "\<not> in_app_notifications p"
    and "email_notifications p" and "email_frequency p = ''immediate''"
  shows "send_notification_via_channels now u n True d = add_log (LogError AttributeError) d"
  using assms by (simp add: send_notification_via_channels_def delay_function_def)


subsection \<open>Cleanup\<close>

lemma delete_notifications_none:
  "\<forall>n \<in> set (notifications d). \<not> P n \<Longrightarrow> delete_notifications P d = (0, d)"
  by (simp add: delete_notifications_def filter_id_conv filter_empty_conv)

lemma delete_histories_none:
  "\<forall>h \<in> set (histories d). \<not> P h \<Longrightarrow> delete_histories P d = (0, d)"
  by (simp add: delete_histories_def filter_id_conv filter_empty_conv)

text \<open>
  The three sweeps remove what the claim says, and a second run at the same time finds
  nothing to remove.
\<close>

lemma cleanup_sweeps_twice:
  "cleanup_sweeps now (snd (cleanup_sweeps now d))
     = ((0, 0, 0), snd (cleanup_sweeps now d))"
proof -
  let ?P1 = "\<lambda>n. case expires_at n of None \<Rightarrow> False | Some e \<Rightarrow> e < now"
  let ?P2 = "\<lambda>h. h_created_at h < now - days 90"
  let ?P3 = "\<lambda>n. is_archived n \<and> created_at n < now - days 180"
  let ?d3 = "snd (cleanup_sweeps now d)"
  have n: "\<forall>n \<in> set (notifications ?d3). \<not> ?P1 n \<and> \<not> ?P3 n"
    by (auto simp: cleanup_sweeps_def delete_notifications_def delete_histories_def
        Let_def split: prod.splits)
  have h: "\<forall>h \<in> set (histories ?d3). \<not> ?P2 h"
    by (auto simp: cleanup_sweeps_def delete_notifications_def delete_histories_def
        Let_def split: prod.splits)
  have 1: "delete_notifications ?P1 ?d3 = (0, ?d3)"
    using n by (intro delete_notifications_none) blast
  have 2: "delete_histories ?P2 ?d3 = (0, ?d3)"
    using h by (intro delete_histories_none) blast
  have 3: "delete_notifications ?P3 ?d3 = (0, ?d3)"
    using n by (intro delete_notifications_none) blast
  show ?thesis
    unfolding cleanup_sweeps_def [of now ?d3] by (simp add: 1 2 3 Let_def)
qed

text \<open>
  Claim C9. The task is to return a successful report with the three counts. On the
  code the report is a failure for every database and every time: the log line after
  the sweeps reads the name \<open>archared_count\<close>, which is never bound, and the handler of
  the task turns the \<open>NameError\<close> into \<open>{'success': False, ...}\<close>. The sweeps themselves
  have run by then.
\<close>

theorem C9_cleanup_report_is_failure:
  "cleanup_old_notifications now d
     = (Inl (Raised (NameError ''archared_count'')),
        add_log (LogError (NameError ''archared_count'')) (snd (cleanup_sweeps now d)))"
  by (simp add: cleanup_old_notifications_def read_local_def split: prod.splits)

subsection \<open>Rendering templates\<close>

text \<open>
  The scanner on a template made of text and plain placeholders: the text is copied,
  each placeholder is looked up, and the first name missing from the context raises
  \<open>KeyError\<close>.
\<close>

lemma is_word_not_special:
  "is_word c \<Longrightarrow> c \<noteq> CHR ''{'' \<and> c \<noteq> CHR ''}'' \<and> c \<noteq> CHR ''['' \<and> c \<noteq> CHR '':''
      \<and> c \<noteq> CHR ''!'' \<and> c \<noteq> CHR ''.''"
  by (auto simp add: is_word_def is_digit_def)

lemma emit_Inr_Nil [simp]: "emit (Inr []) r = r"
  by (simp add: emit_def split: sum.splits)

lemma emit_Inr_append: "emit (Inr (a @ b)) r = emit (Inr a) (emit (Inr b) r)"
  by (simp add: emit_def split: sum.splits)

lemma scan_literal:
  "list_all (\<lambda>c. c \<noteq> CHR ''{'' \<and> c \<noteq> CHR ''}'') s \<Longrightarrow>
   format_scan fx ctx Text (s @ rest) = emit (Inr s) (format_scan fx ctx Text rest)"
proof (induction s)
  case Nil
  then show ?case by simp
next
  case (Cons c s)
  then show ?case
    using emit_Inr_append [of "[c]" s] by simp
qed

lemma scan_field_name:
  "list_all is_word n \<Longrightarrow>
   format_scan fx ctx (FieldName acc) (n @ CHR ''}'' # rest)
     = emit (render_field fx ctx (acc @ n) None []) (format_scan fx ctx Text rest)"
proof (induction n arbitrary: acc)
  case Nil
  then show ?case by simp
next
  case (Cons c n)
  then show ?case
    using is_word_not_special [of c] by simp
qed

lemma render_plain_field:
  assumes "n \<noteq> []" and "list_all is_word n" and "\<not> list_all is_digit n"
  shows "render_field fx ctx n None []
           = (case ctx n of None \<Rightarrow> Inl (KeyError n) | Some v \<Rightarrow> Inr v)"
proof -
  have "\<forall>c \<in> set n. \<not> name_stop c"
    using assms(2) is_word_not_special by (auto simp add: list_all_iff name_stop_def)
  then have tw: "takeWhile (\<lambda>c. \<not> name_stop c) n = n"
    and dw: "dropWhile (\<lambda>c. \<not> name_stop c) n = []"
    by simp_all
  show ?thesis
    using assms(1,3) by (simp add: render_field_def Let_def tw dw split: option.splits)
qed

lemma scan_placeholder:
  assumes "n \<noteq> []" and "list_all is_word n" and "\<not> list_all is_digit n"
  shows "format_scan fx ctx Text (CHR ''{'' # n @ CHR ''}'' # rest)
           = emit (case ctx n of None \<Rightarrow> Inl (KeyError n) | Some v \<Rightarrow> Inr v)
               (format_scan fx ctx Text rest)"
proof -
  obtain c cs where n: "n = c # cs" using assms(1) by (cases n) auto
  have c: "c \<noteq> CHR ''{''" using assms(2) is_word_not_special [of c] by (simp add: n)
  have "format_scan fx ctx Text (CHR ''{'' # n @ CHR ''}'' # rest)
          = format_scan fx ctx (FieldName []) (n @ CHR ''}'' # rest)"
    using c by (simp add: n)
  then show ?thesis
    using scan_field_name [OF assms(2), of fx ctx "[]" rest] render_plain_field [OF assms, of fx ctx]
    by simp
qed


lemma format_template_text:
  "list_all piece_ok ps \<Longrightarrow>
   format_scan fx ctx Text (template_text ps @ rest)
     = (case find (\<lambda>k. ctx k = None) (used_vars ps) of
          Some k \<Rightarrow> Inl (KeyError k)
        | None \<Rightarrow> emit (Inr (substituted ctx ps)) (format_scan fx ctx Text rest))"
proof (induction ps)
  case Nil
  then show ?case by (simp add: template_text_def used_vars_def substituted_def)
next
  case (Cons p ps)
  show ?case
  proof (cases p)
    case (Lit s)
    then show ?thesis
      using Cons scan_literal [of s fx ctx "template_text ps @ rest"]
      by (simp add: template_text_def used_vars_def substituted_def emit_Inr_append emit_def split: option.splits sum.splits)
  next
    case (Var n)
    then show ?thesis
      using Cons scan_placeholder [of n fx ctx "template_text ps @ rest"]
      by (simp add: template_text_def used_vars_def substituted_def emit_Inr_append emit_def split: option.splits sum.splits)
  qed
qed


lemma find_append:
  "find P (xs @ ys) = (case find P xs of None \<Rightarrow> find P ys | Some x \<Rightarrow> Some x)"
  by (induction xs) simp_all

lemma py_format_template_text:
  assumes "list_all piece_ok ps"
  shows "py_format fx ctx (template_text ps)
           = (case find (\<lambda>k. ctx k = None) (used_vars ps) of
                Some k \<Rightarrow> Inl (KeyError k)
              | None \<Rightarrow> Inr (substituted ctx ps))"
  using format_template_text [OF assms, of fx ctx "[]"]
  by (simp add: py_format_def emit_def split: option.splits)

text \<open>
  A template whose title has a lone opening brace uses no variable, and rendering it
  raises \<open>ValueError\<close> for every context, before anything is stored.
\<close>

lemma malformed_template_raises:
  "findall_placeholders ''Hello {'' = []
   \<and> create_notification no_field_ext 0 (template_of ''Hello {'' ''Welcome'') 1 ada
        None (db_with ada)
      = (Inl ValueError, template_of ''Hello {'' ''Welcome'', db_with ada)"
  by (simp add: create_notification_def render_def py_format_def template_of_def emit_def)

text \<open>
  Rendering a template made of text and plain placeholders fails with \<open>KeyError\<close> for
  the first variable that the context lacks, the title before the message, and
  succeeds with the substituted texts when none is lacking.
\<close>

lemma render_plain_template:
  assumes "list_all piece_ok ps" and "list_all piece_ok qs"
    and "title_template t = template_text ps"
    and "message_template t = template_text qs"
  shows "render fx t (Some ctx)
           = (case find (\<lambda>k. ctx k = None) (used_vars ps @ used_vars qs) of
                Some k \<Rightarrow> Inl (KeyError k)
              | None \<Rightarrow>
                  Inr \<lparr> r_title = substituted ctx ps, r_message = substituted ctx qs,
                        r_notification_type = t_notification_type t,
                        r_is_priority = t_is_priority t,
                        r_action_required = t_action_required t,
                        r_target_url = (case ctx ''target_url'' of Some v \<Rightarrow> v
                                        | None \<Rightarrow> default_target_url t) \<rparr>)"
  using assms(3,4) py_format_template_text [OF assms(1), of fx ctx]
    py_format_template_text [OF assms(2), of fx ctx]
  by (simp add: render_def find_append split: option.splits)

text \<open>
  When rendering fails, \<open>create_notification\<close> fails with the same error and changes
  nothing. When rendering succeeds, the notification is stored with the rendered
  texts, the creation raises \<open>AttributeError\<close>, and the lines that count the use are not
  reached: the template keeps its \<open>usage_count\<close> and \<open>last_used\<close>.
\<close>

lemma create_notification_render_fails:
  "render fx t context = Inl e \<Longrightarrow> create_notification fx now t uid u context d = (Inl e, t, d)"
  by (simp add: create_notification_def)

lemma create_notification_render_succeeds:
  assumes "render fx t context = Inr r"
  shows "fst (create_notification fx now t uid u context d) = Inl AttributeError"
    and "fst (snd (create_notification fx now t uid u context d)) = t"
    and "notifications (snd (snd (create_notification fx now t uid u context d)))
           = notifications d @
             [\<lparr> nid = next_id d, owner = uid, title = r_title r, message = r_message r,
                notification_type = r_notification_type r, is_read = False,
                is_priority = r_is_priority r, is_archived = False,
                created_at = now, read_at = None, expires_at = None,
                source = ''template:'' @ t_name t, target_url = r_target_url r,
                action_required = r_action_required r \<rparr>]"
    and "users (snd (snd (create_notification fx now t uid u context d))) = users d"
proof -
  let ?row = "\<lparr> nid = 0, owner = uid, title = r_title r, message = r_message r,
                notification_type = r_notification_type r, is_read = False,
                is_priority = r_is_priority r, is_archived = False,
                created_at = now, read_at = None, expires_at = None,
                source = ''template:'' @ t_name t, target_url = r_target_url r,
                action_required = r_action_required r \<rparr>"
  have c: "create_notification fx now t uid u context d
             = (Inl AttributeError, t, snd (objects_create now u ?row d))"
    using objects_create_raises(1) [of now u ?row d]
    by (cases "objects_create now u ?row d") (simp add: create_notification_def assms)
  show "fst (create_notification fx now t uid u context d) = Inl AttributeError"
    by (simp add: c)
  show "fst (snd (create_notification fx now t uid u context d)) = t"
    by (simp add: c)
  show "notifications (snd (snd (create_notification fx now t uid u context d)))
           = notifications d @
             [\<lparr> nid = next_id d, owner = uid, title = r_title r, message = r_message r,
                notification_type = r_notification_type r, is_read = False,
                is_priority = r_is_priority r, is_archived = False,
                created_at = now, read_at = None, expires_at = None,
                source = ''template:'' @ t_name t, target_url = r_target_url r,
                action_required = r_action_required r \<rparr>]"
    by (simp add: c objects_create_keeps)
  show "users (snd (snd (create_notification fx now t uid u context d))) = users d"
    by (simp add: c objects_create_keeps)
qed

text \<open>No call of \<open>create_notification\<close> returns a notification.\<close>

lemma create_notification_never_returns:
  "fst (create_notification fx now t uid u context d) \<noteq> Inr n"
proof (cases "render fx t context")
  case (Inl e)
  then show ?thesis by (simp add: create_notification_render_fails)
next
  case (Inr r)
  then show ?thesis by (simp add: create_notification_render_succeeds(1))
qed

lemma create_notification_users:
  "users (snd (snd (create_notification fx now t uid u context d))) = users d"
proof (cases "render fx t context")
  case (Inl e)
  then show ?thesis by (simp add: create_notification_render_fails)
next
  case (Inr r)
  then show ?thesis by (simp add: create_notification_render_succeeds(4))
qed

text \<open>
  Claim C5. A template with title \<open>Hi {name}\<close> and message \<open>Welcome, {name}!\<close> is rendered
  into a notification with the context \<open>name = Ada\<close>, so every used variable is present;
  the operation is to succeed and to raise the usage count from 0 to 1. On the code
  rendering succeeds and the notification \<open>Hi Ada\<close> is stored, but the creation raises
  \<open>AttributeError\<close> out of the receiver \<open>handle_scheduled_notifications\<close>, the exception
  leaves \<open>create_notification\<close>, and the usage count stays 0.
\<close>

theorem C5_create_from_template_raises:
  "render no_field_ext (template_of ''Hi {name}'' ''Welcome, {name}!'')
       (Some [''name'' \<mapsto> ''Ada''])
     = Inr \<lparr> r_title = ''Hi Ada'', r_message = ''Welcome, Ada!'',
             r_notification_type = ''info'', r_is_priority = False,
             r_action_required = False, r_target_url = [] \<rparr>
   \<and> fst (create_notification no_field_ext 0
             (template_of ''Hi {name}'' ''Welcome, {name}!'') 1 ada
             (Some [''name'' \<mapsto> ''Ada'']) (db_with ada))
       = Inl AttributeError
   \<and> usage_count (fst (snd (create_notification no_field_ext 0
             (template_of ''Hi {name}'' ''Welcome, {name}!'') 1 ada
             (Some [''name'' \<mapsto> ''Ada'']) (db_with ada)))) = 0
   \<and> map title (notifications (snd (snd (create_notification no_field_ext 0
             (template_of ''Hi {name}'' ''Welcome, {name}!'') 1 ada
             (Some [''name'' \<mapsto> ''Ada'']) (db_with ada)))))
       = [''Hello'', ''Hi Ada'']"
proof -
  have r: "render no_field_ext (template_of ''Hi {name}'' ''Welcome, {name}!'')
             (Some [''name'' \<mapsto> ''Ada''])
           = Inr \<lparr> r_title = ''Hi Ada'', r_message = ''Welcome, Ada!'',
                   r_notification_type = ''info'', r_is_priority = False,
                   r_action_required = False, r_target_url = [] \<rparr>"
    by (simp add: render_def py_format_def template_of_def emit_def render_field_def
        name_stop_def is_digit_def)
  have u: "usage_count (template_of ''Hi {name}'' ''Welcome, {name}!'') = 0"
    by (simp add: template_of_def)
  have n: "map title (notifications (db_with ada)) = [''Hello'']"
    by (simp add: db_with_def hello_def)
  show ?thesis
    using create_notification_render_succeeds [OF r, of 0 1 ada "db_with ada"]
    by (simp add: r u n)
qed


subsection \<open>Template form validation\<close>

text \<open>
  On a template made of text and plain placeholders the search finds the names of all
  placeholders, in their order.
\<close>

lemma findall_literal:
  "list_all (\<lambda>c. c \<noteq> CHR ''{'' \<and> c \<noteq> CHR ''}'') s \<Longrightarrow>
   findall_placeholders (s @ rest) = findall_placeholders rest"
  by (induction s) simp_all

lemma findall_placeholder:
  assumes "n \<noteq> []" and "list_all is_word n"
  shows "findall_placeholders (CHR ''{'' # n @ CHR ''}'' # rest)
           = n # findall_placeholders rest"
proof -
  have w: "\<not> is_word CHR ''}''"
    by (simp add: is_word_def is_digit_def)
  have tw: "takeWhile is_word (n @ CHR ''}'' # rest) = n"
    using assms(2) w by (simp add: takeWhile_append2 list_all_iff)
  have dw: "dropWhile is_word (n @ CHR ''}'' # rest) = CHR ''}'' # rest"
    using assms(2) w by (simp add: dropWhile_append2 list_all_iff)
  show ?thesis
    using assms(1) by (simp add: tw dw)
qed

lemma findall_template_text_append:
  "list_all piece_ok ps \<Longrightarrow>
   findall_placeholders (template_text ps @ rest) = used_vars ps @ findall_placeholders rest"
proof (induction ps)
  case Nil
  then show ?case by (simp add: template_text_def used_vars_def)
next
  case (Cons p ps)
  show ?case
  proof (cases p)
    case (Lit s)
    then show ?thesis
      using Cons findall_literal [of s "template_text ps @ rest"]
      by (simp add: template_text_def used_vars_def)
  next
    case (Var n)
    then show ?thesis
      using Cons findall_placeholder [of n "template_text ps @ rest"]
      by (simp add: template_text_def used_vars_def)
  qed
qed

lemma findall_template_text:
  "list_all piece_ok ps \<Longrightarrow> findall_placeholders (template_text ps) = used_vars ps"
  using findall_template_text_append [of ps "[]"] by simp


text \<open>
  Claim C6, as stated: a definition with a placeholder that is not declared is
  rejected, also when the declared map is empty. On the code a title with the
  placeholder \<open>{name}\<close> and an empty declared map is accepted.
\<close>

theorem C6_empty_declaration_counterexample:
  "findall_placeholders ''Hi {name}'' = [''name'']
   \<and> clean \<lparr> cd_title_template = Some ''Hi {name}'', cd_message_template = Some ''Welcome'',
             cd_template_variables = Some [] \<rparr>
      = Inr \<lparr> cd_title_template = Some ''Hi {name}'', cd_message_template = Some ''Welcome'',
              cd_template_variables = Some [] \<rparr>"
  by (simp add: clean_def is_word_def is_digit_def)


text \<open>
  Claim C6, amended: for every template definition whose title and message are present
  and whose declared variable-description map is not empty, validation extracts the
  \<open>{name}\<close> placeholders from both the title template and the message template, and
  rejects the definition whenever any extracted placeholder is absent from the declared
  map; the error names the absent placeholders.
\<close>

theorem C6_clean_rejects_undeclared:
  assumes "cd_title_template cd = Some a"
    and "cd_message_template cd = Some b"
    and "cd_template_variables cd = Some tv"
    and "tv \<noteq> []"
    and "k \<in> set (findall_placeholders a) \<union> set (findall_placeholders b)"
    and "k \<notin> fst ` set tv"
  shows "\<exists>missing. clean cd = Inl (ValidationError missing) \<and> k \<in> missing"
  using assms by (auto simp add: clean_def Let_def)


theorem C6_clean_rejects_undeclared_witness:
  "cd_title_template \<lparr> cd_title_template = Some ''Hi {name}'',
                        cd_message_template = Some ''Welcome to {site}'',
                        cd_template_variables = Some [(''name'', ''the name'')] \<rparr>
     = Some ''Hi {name}''
   \<and> [(''name'', ''the name'')] \<noteq> []
   \<and> ''site'' \<in> set (findall_placeholders ''Hi {name}'')
                  \<union> set (findall_placeholders ''Welcome to {site}'')
   \<and> ''site'' \<notin> fst ` set [(''name'', ''the name'')]
   \<and> (\<exists>missing. clean \<lparr> cd_title_template = Some ''Hi {name}'',
                          cd_message_template = Some ''Welcome to {site}'',
                          cd_template_variables = Some [(''name'', ''the name'')] \<rparr>
                   = Inl (ValidationError missing) \<and> ''site'' \<in> missing)"
proof -
  let ?cd = "\<lparr> cd_title_template = Some ''Hi {name}'',
                cd_message_template = Some ''Welcome to {site}'',
                cd_template_variables = Some [(''name'', ''the name'')] \<rparr>"
  have h1: "cd_title_template ?cd = Some ''Hi {name}''" by simp
  have h2: "cd_message_template ?cd = Some ''Welcome to {site}''" by simp
  have h3: "cd_template_variables ?cd = Some [(''name'', ''the name'')]" by simp
  have h4: "[(''name'', ''the name'')] \<noteq> []" by simp
  have h5: "''site'' \<in> set (findall_placeholders ''Hi {name}'')
                        \<union> set (findall_placeholders ''Welcome to {site}'')"
    by (simp add: is_word_def is_digit_def)
  have h6: "''site'' \<notin> fst ` set [(''name'', ''the name'')]" by simp
  show ?thesis
    using h1 h4 h5 h6 C6_clean_rejects_undeclared [OF h1 h2 h3 h4 h5 h6]
    by (simp only: simp_thms)
qed

text \<open>A definition whose placeholders are all declared is accepted.\<close>

lemma clean_accepts_declared:
  assumes "cd_title_template cd = Some a"
    and "cd_message_template cd = Some b"
    and "cd_template_variables cd = Some tv"
    and "set (findall_placeholders a) \<union> set (findall_placeholders b) \<subseteq> fst ` set tv"
  shows "clean cd = Inr cd"
  using assms by (auto simp add: clean_def Let_def)


subsection \<open>Batch processing\<close>

text \<open>
  One recipient adds one to \<open>failed_count\<close> and leaves the other counters: an id that
  does not resolve is counted by the handler, and for a user that exists
  \<open>create_notification\<close> raises before \<open>sent_count\<close> is touched.
\<close>

lemma process_recipient_counts:
  assumes "process_recipient fx now r (b, d, c) = (b', d', c')"
  shows "failed_count b' = failed_count b + 1 \<and> sent_count b' = sent_count b
       \<and> total_count b' = total_count b \<and> c' = c"
proof (cases "get_user d r")
  case (Inl e)
  then show ?thesis
    using assms by (auto simp add: process_recipient_def count_failure_def)
next
  case (Inr p)
  obtain uid u where p: "p = (uid, u)" by (cases p)
  show ?thesis
  proof (cases "b_template b")
    case None
    then show ?thesis
      using assms Inr p by (auto simp add: process_recipient_def count_failure_def)
  next
    case (Some t)
    let ?ctx = "(b_context b)(''user_name'' \<mapsto> (if full_name u \<noteq> [] then full_name u
                                                  else username u),
                              ''user_email'' \<mapsto> email u)"
    obtain res t' d1 where k: "create_notification fx now t uid u (Some ?ctx) d = (res, t', d1)"
      by (metis prod_cases3)
    have "res \<noteq> Inr n" for n
      using create_notification_never_returns [of fx now t uid u "Some ?ctx" d n] k by simp
    then obtain e where e: "res = Inl e" by (cases res) auto
    show ?thesis
      using assms Inr p Some k e
      by (auto simp add: process_recipient_def count_failure_def)
  qed
qed

lemma process_recipients_counts:
  assumes "process_recipients fx now rs (b, d, c) = (b', d', c')"
  shows "failed_count b' = failed_count b + length rs \<and> sent_count b' = sent_count b
       \<and> total_count b' = total_count b \<and> c' = c"
  using assms
proof (induction rs arbitrary: b d c)
  case Nil
  then show ?case by simp
next
  case (Cons r rs)
  obtain b1 d1 c1 where s: "process_recipient fx now r (b, d, c) = (b1, d1, c1)"
    by (metis prod_cases3)
  have "process_recipients fx now rs (b1, d1, c1) = (b', d', c')"
    using Cons.prems s by simp
  from Cons.IH [OF this] process_recipient_counts [OF s] show ?case by simp
qed

text \<open>
  The states between two rounds of the loop are the states after the prefixes of the
  recipient list.
\<close>

lemma process_recipients_append:
  "process_recipients fx now (xs @ ys) state
     = process_recipients fx now ys (process_recipients fx now xs state)"
  by (induction xs arbitrary: state) simp_all

text \<open>
  Claim C4. A batch is created with \<open>total_count\<close> equal to the number of its recipient
  ids and the other counters 0, and is processed from the pending state. After any
  number \<open>k\<close> of rounds of the loop \<open>sent_count + failed_count\<close> is at most \<open>total_count\<close>,
  and when \<open>process_notification_batch\<close> has returned the sum equals \<open>total_count\<close>, for
  every recipient list, every user table and every template.
\<close>

theorem C4_batch_counters:
  assumes "b_status batch = Pending"
    and "total_count batch = length (user_ids batch)"
    and "sent_count batch = 0"
    and "failed_count batch = 0"
  shows "sent_count (fst (process_recipients fx now (take k (user_ids batch))
                            (start_sending now batch, d, [])))
           + failed_count (fst (process_recipients fx now (take k (user_ids batch))
                                  (start_sending now batch, d, [])))
           \<le> total_count (fst (process_recipients fx now (take k (user_ids batch))
                                  (start_sending now batch, d, [])))
       \<and> sent_count (fst (snd (process_notification_batch fx now batch d)))
           + failed_count (fst (snd (process_notification_batch fx now batch d)))
           = total_count (fst (snd (process_notification_batch fx now batch d)))
       \<and> total_count (fst (snd (process_notification_batch fx now batch d)))
           = length (user_ids batch)"
proof -
  let ?s0 = "(start_sending now batch, d, [])"
  obtain b1 d1 c1 where p: "process_recipients fx now (take k (user_ids batch)) ?s0
                              = (b1, d1, c1)"
    by (metis prod_cases3)
  have 1: "sent_count b1 + failed_count b1 \<le> total_count b1"
    using process_recipients_counts [OF p] assms(2,3,4)
    by (simp add: start_sending_def)
  obtain b2 d2 c2 where q: "process_recipients fx now (user_ids batch) ?s0 = (b2, d2, c2)"
    by (metis prod_cases3)
  have 2: "sent_count b2 + failed_count b2 = total_count b2
           \<and> total_count b2 = length (user_ids batch)"
    using process_recipients_counts [OF q] assms(2,3,4)
    by (simp add: start_sending_def)
  have 3: "sent_count (fst (snd (process_notification_batch fx now batch d)))
             + failed_count (fst (snd (process_notification_batch fx now batch d)))
             = total_count (fst (snd (process_notification_batch fx now batch d)))
           \<and> total_count (fst (snd (process_notification_batch fx now batch d)))
             = length (user_ids batch)"
  proof (cases "user_ids batch = []")
    case True
    then show ?thesis
      using assms
      by (simp add: process_notification_batch_def start_sending_def fail_def)
  next
    case False
    then show ?thesis
      using assms(1) q 2
      by (simp add: process_notification_batch_def Let_def start_sending_def complete_def)
  qed
  show ?thesis
    using 1 3 by (simp add: p)
qed

theorem C4_batch_counters_witness:
  "b_status (new_batch ''b'' (template_of ''Hello'' ''Welcome'') Map.empty
               [UserId 1, UserId 9]) = Pending
   \<and> total_count (new_batch ''b'' (template_of ''Hello'' ''Welcome'') Map.empty
                    [UserId 1, UserId 9])
       = length (user_ids (new_batch ''b'' (template_of ''Hello'' ''Welcome'') Map.empty
                             [UserId 1, UserId 9]))
   \<and> sent_count (new_batch ''b'' (template_of ''Hello'' ''Welcome'') Map.empty
                   [UserId 1, UserId 9]) = 0
   \<and> failed_count (new_batch ''b'' (template_of ''Hello'' ''Welcome'') Map.empty
                     [UserId 1, UserId 9]) = 0
   \<and> sent_count (fst (snd (process_notification_batch no_field_ext 0
         (new_batch ''b'' (template_of ''Hello'' ''Welcome'') Map.empty [UserId 1, UserId 9])
         (db_with ada))))
       + failed_count (fst (snd (process_notification_batch no_field_ext 0
         (new_batch ''b'' (template_of ''Hello'' ''Welcome'') Map.empty [UserId 1, UserId 9])
         (db_with ada))))
       = total_count (fst (snd (process_notification_batch no_field_ext 0
         (new_batch ''b'' (template_of ''Hello'' ''Welcome'') Map.empty [UserId 1, UserId 9])
         (db_with ada))))
   \<and> total_count (fst (snd (process_notification_batch no_field_ext 0
         (new_batch ''b'' (template_of ''Hello'' ''Welcome'') Map.empty [UserId 1, UserId 9])
         (db_with ada)))) = 2"
proof -
  let ?b = "new_batch ''b'' (template_of ''Hello'' ''Welcome'') Map.empty
              [UserId 1, UserId 9]"
  have h1: "b_status ?b = Pending" by (simp add: new_batch_def)
  have h2: "total_count ?b = length (user_ids ?b)" by (simp add: new_batch_def)
  have h3: "sent_count ?b = 0" by (simp add: new_batch_def)
  have h4: "failed_count ?b = 0" by (simp add: new_batch_def)
  have l: "length (user_ids ?b) = 2" by (simp add: new_batch_def)
  note t = C4_batch_counters
             [OF h1 h2 h3 h4, where fx = no_field_ext and now = 0 and d = "db_with ada"
                and k = 1]
  show ?thesis
    using h1 h2 h3 h4 t [THEN conjunct2] l by (simp only: simp_thms)
qed

text \<open>
  What the task returns for a pending batch with recipients: no notification created,
  every recipient counted as failed, status completed.
\<close>

lemma process_notification_batch_all_failed:
  assumes "b_status batch = Pending"
    and "user_ids batch \<noteq> []"
    and "sent_count batch = 0"
    and "failed_count batch = 0"
  shows "fst (process_notification_batch fx now batch d) = Inr (0, length (user_ids batch))"
    and "b_status (fst (snd (process_notification_batch fx now batch d))) = Completed"
    and "sent_count (fst (snd (process_notification_batch fx now batch d))) = 0"
    and "failed_count (fst (snd (process_notification_batch fx now batch d)))
           = length (user_ids batch)"
proof -
  obtain b2 d2 c2 where q: "process_recipients fx now (user_ids batch)
                              (start_sending now batch, d, []) = (b2, d2, c2)"
    by (metis prod_cases3)
  have k: "failed_count b2 = length (user_ids batch) \<and> sent_count b2 = 0 \<and> c2 = []"
    using process_recipients_counts [OF q] assms(3,4)
    by (simp add: start_sending_def)
  have r: "process_notification_batch fx now batch d
             = (Inr (0, length (user_ids batch)), complete now b2, d2)"
    using assms(1,2) q k
    by (simp add: process_notification_batch_def Let_def start_sending_def complete_def)
  show "fst (process_notification_batch fx now batch d) = Inr (0, length (user_ids batch))"
    by (simp add: r)
  show "b_status (fst (snd (process_notification_batch fx now batch d))) = Completed"
    by (simp add: r complete_def)
  show "sent_count (fst (snd (process_notification_batch fx now batch d))) = 0"
    using k by (simp add: r complete_def)
  show "failed_count (fst (snd (process_notification_batch fx now batch d)))
           = length (user_ids batch)"
    using k by (simp add: r complete_def)
qed

text \<open>
  The scenario of three recipient ids of which one does not exist: all three are
  counted as failed.
\<close>

lemma batch_scenario_one_unknown_recipient:
  "fst (process_notification_batch fx 0
          (new_batch ''b'' (template_of ''Hello'' ''Welcome'') Map.empty
             [UserId 1, UserId 9, UserId 1])
          (db_with ada)) = Inr (0, 3)"
  using process_notification_batch_all_failed(1)
          [where batch = "new_batch ''b'' (template_of ''Hello'' ''Welcome'') Map.empty
                            [UserId 1, UserId 9, UserId 1]"
             and fx = fx and now = 0 and d = "db_with ada"]
  by (simp add: new_batch_def)

end
